theory Spec2Isabelle
  imports Complex_Main "HOL-Library.Product_Lexorder"
begin

section \<open>Course recommendation: burnout, utility and ranking\<close>

text \<open>
  A shallow embedding of \<^verbatim>\<open>burnout_calculator.py\<close>, \<^verbatim>\<open>ga_recommender.py\<close> and the
  helpers of \<^verbatim>\<open>utils.py\<close> they call.

  Conventions. A Python float is a \<open>real\<close>; a float that may be NaN (a missing cell of
  a table, after \<^verbatim>\<open>pd.to_numeric(errors='coerce')\<close>) is a \<open>real option\<close> with
  \<open>None\<close> for NaN. Rounding and the infinities of IEEE arithmetic are not modelled.
  A table (DataFrame) is the list of its rows, each row a record with the columns
  \<^verbatim>\<open>load_subject_data\<close> gives it. An exception is a value \<open>Inl\<close> of a sum type.
\<close>

subsection \<open>Values and errors\<close>

datatype error = TypeError | AttributeError | KeyError | IndexError

type_synonym pyfloat = "real option"

definition ebind :: "error + 'a \<Rightarrow> ('a \<Rightarrow> error + 'b) \<Rightarrow> error + 'b" where
  "ebind m f = (case m of Inl e \<Rightarrow> Inl e | Inr x \<Rightarrow> f x)"

text \<open>NaN-propagating arithmetic; every comparison with NaN is false.\<close>

definition fadd :: "pyfloat \<Rightarrow> pyfloat \<Rightarrow> pyfloat" where
  "fadd a b = (case (a, b) of (Some x, Some y) \<Rightarrow> Some (x + y) | _ \<Rightarrow> None)"

definition fsub :: "pyfloat \<Rightarrow> pyfloat \<Rightarrow> pyfloat" where
  "fsub a b = (case (a, b) of (Some x, Some y) \<Rightarrow> Some (x - y) | _ \<Rightarrow> None)"

definition fmul :: "pyfloat \<Rightarrow> pyfloat \<Rightarrow> pyfloat" where
  "fmul a b = (case (a, b) of (Some x, Some y) \<Rightarrow> Some (x * y) | _ \<Rightarrow> None)"

definition fdiv :: "pyfloat \<Rightarrow> pyfloat \<Rightarrow> pyfloat" where
  \<comment> \<open>numpy division; a zero divisor gives inf or nan there, NaN here\<close>
  "fdiv a b = (case (a, b) of (Some x, Some y) \<Rightarrow> (if y = 0 then None else Some (x / y))
                | _ \<Rightarrow> None)"

definition flog :: "pyfloat \<Rightarrow> pyfloat" where
  \<comment> \<open>\<^verbatim>\<open>np.log\<close>; defined on positive arguments\<close>
  "flog a = (case a of Some x \<Rightarrow> (if 0 < x then Some (ln x) else None) | None \<Rightarrow> None)"

definition fgt :: "pyfloat \<Rightarrow> pyfloat \<Rightarrow> bool" where
  "fgt a b = (case (a, b) of (Some x, Some y) \<Rightarrow> y < x | _ \<Rightarrow> False)"

definition py_max :: "pyfloat \<Rightarrow> pyfloat \<Rightarrow> pyfloat" where
  \<comment> \<open>the builtin \<^verbatim>\<open>max(a, b)\<close>: the first argument unless the second is greater\<close>
  "py_max a b = (if fgt b a then b else a)"

subsection \<open>The catalog\<close>

record subject =
  subject_code :: string
  name :: string
  course_outcomes :: "string option"
  hours_per_week :: pyfloat
  num_assignments :: pyfloat
  hours_per_assignment :: pyfloat
  assignment_weight :: pyfloat
  avg_assignment_grade :: pyfloat
  project_weight :: pyfloat
  avg_project_grade :: pyfloat
  exam_count :: pyfloat
  avg_exam_grade :: pyfloat
  exam_weight :: pyfloat
  avg_final_grade :: pyfloat
  Seats :: pyfloat
  Enrollments :: pyfloat

record requirement =
  req_subject_code :: string
  req_name :: string
  req_type :: string

record prereq =
  pre_subject_code :: string
  prereq_subject_code :: string

record outcome =
  out_subject_code :: string
  out_outcome :: string

text \<open>
  The requirement and outcome tables are built by \<^verbatim>\<open>pd.DataFrame(rows)\<close> from a list of
  dictionaries. From the empty list that is a frame with no columns at all, and selecting
  a column of it raises; a frame that has its columns may still have no rows.
\<close>

datatype 'r frame = NoColumns | Rows "'r list"

definition data_frame :: "'r list \<Rightarrow> 'r frame" where
  \<comment> \<open>\<^verbatim>\<open>pd.DataFrame(rows)\<close>\<close>
  "data_frame rows = (if rows = [] then NoColumns else Rows rows)"

text \<open>
  What an expression over the catalog can evaluate to: \<^verbatim>\<open>None\<close>, a string, a float,
  or a Series holding one row of the subject table.
\<close>

datatype pyval = PyNone | PyStr string | PyFloat pyfloat | PySeries subject

definition str_cell :: "string option \<Rightarrow> pyval" where
  "str_cell c = (case c of None \<Rightarrow> PyFloat None | Some s \<Rightarrow> PyStr s)"

definition column :: "subject \<Rightarrow> string \<Rightarrow> pyval option" where
  "column r c =
    (if c = ''subject_code'' then Some (PyStr (subject_code r))
     else if c = ''name'' then Some (PyStr (name r))
     else if c = ''course_outcomes'' then Some (str_cell (course_outcomes r))
     else if c = ''hours_per_week'' then Some (PyFloat (hours_per_week r))
     else if c = ''num_assignments'' then Some (PyFloat (num_assignments r))
     else if c = ''hours_per_assignment'' then Some (PyFloat (hours_per_assignment r))
     else if c = ''assignment_weight'' then Some (PyFloat (assignment_weight r))
     else if c = ''avg_assignment_grade'' then Some (PyFloat (avg_assignment_grade r))
     else if c = ''project_weight'' then Some (PyFloat (project_weight r))
     else if c = ''avg_project_grade'' then Some (PyFloat (avg_project_grade r))
     else if c = ''exam_count'' then Some (PyFloat (exam_count r))
     else if c = ''avg_exam_grade'' then Some (PyFloat (avg_exam_grade r))
     else if c = ''exam_weight'' then Some (PyFloat (exam_weight r))
     else if c = ''avg_final_grade'' then Some (PyFloat (avg_final_grade r))
     else if c = ''Seats'' then Some (PyFloat (Seats r))
     else if c = ''Enrollments'' then Some (PyFloat (Enrollments r))
     else None)"

fun iloc0 :: "pyval \<Rightarrow> error + pyval" where
  \<comment> \<open>\<^verbatim>\<open>x.iloc[0]\<close>: on a row Series its first element, the cell of the first column\<close>
  "iloc0 (PySeries r) = Inr (PyStr (subject_code r))"
| "iloc0 PyNone = Inl AttributeError"
| "iloc0 (PyStr s) = Inl AttributeError"
| "iloc0 (PyFloat x) = Inl AttributeError"

fun getitem :: "pyval \<Rightarrow> string \<Rightarrow> error + pyval" where
  \<comment> \<open>\<^verbatim>\<open>x['column']\<close>\<close>
  "getitem (PySeries r) c = (case column r c of None \<Rightarrow> Inl KeyError | Some v \<Rightarrow> Inr v)"
| "getitem (PyStr s) c = Inl TypeError"
| "getitem PyNone c = Inl TypeError"
| "getitem (PyFloat x) c = Inl IndexError"

definition field_or :: "pyval \<Rightarrow> string \<Rightarrow> real \<Rightarrow> error + real" where
  \<comment> \<open>\<^verbatim>\<open>subject[c] if pd.notna(subject[c]) else d\<close>, the value then used as a number\<close>
  "field_or subject c d =
    ebind (getitem subject c) (\<lambda>v.
      case v of
        PyFloat (Some x) \<Rightarrow> Inr x
      | PyFloat None \<Rightarrow> Inr d
      | PyNone \<Rightarrow> Inr d
      | PyStr s \<Rightarrow> Inl TypeError
      | PySeries r \<Rightarrow> Inl TypeError)"

definition get_subject :: "subject list \<Rightarrow> string \<Rightarrow> pyval" where
  "get_subject subjects_df code =
    (case filter (\<lambda>r. subject_code r = code) subjects_df of
       [] \<Rightarrow> PyNone
     | r # rest \<Rightarrow> PySeries r)"

subsection \<open>Normalization maxima\<close>

record max_values =
  Hmax :: pyfloat
  Amax :: pyfloat
  Pmax :: pyfloat
  Emax :: pyfloat

definition series_max :: "pyfloat list \<Rightarrow> pyfloat" where
  \<comment> \<open>\<^verbatim>\<open>Series.max()\<close>: the greatest value that is not NaN; NaN when there is none\<close>
  "series_max xs =
    (case List.map_filter id xs of [] \<Rightarrow> None | y # ys \<Rightarrow> Some (fold max ys y))"

definition precalculate_max_values :: "subject list \<Rightarrow> max_values" where
  "precalculate_max_values subjects_df =
    \<lparr> Hmax = py_max (series_max (map hours_per_week subjects_df)) (Some 1),
      Amax = py_max (series_max (map (\<lambda>r.
               fmul (fmul (num_assignments r) (hours_per_assignment r)) (assignment_weight r))
               subjects_df)) (Some 1),
      Pmax = py_max (series_max (map (\<lambda>r.
               fmul (fsub (Some 100) (avg_project_grade r)) (project_weight r))
               subjects_df)) (Some 1),
      Emax = py_max (series_max (map (\<lambda>r.
               fmul (fmul (exam_count r) (fsub (Some 100) (avg_exam_grade r))) (exam_weight r))
               subjects_df)) (Some 1) \<rparr>"

subsection \<open>The student profile\<close>

text \<open>
  An entry of the \<^verbatim>\<open>completed_courses\<close> dictionary: a dictionary that may record the
  three grades, or a value that is not a dictionary.
\<close>

datatype course_entry = Details "real option" "real option" "real option" | NotADict

text \<open>
  The shapes \<^verbatim>\<open>completed_courses\<close> arrives in: a dict, a set, a list or a string.
  A dict is the list of its items, its keys distinct; a set is a list of its elements.
\<close>

datatype completed =
    CC_Dict "(string \<times> course_entry) list"
  | CC_Set "string list"
  | CC_List "string list"
  | CC_Str string

record student_data =
  NUid :: string
  desired_outcomes :: "string option"
  core_subjects :: string
  programming_experience :: "(string \<times> real) list"
  math_experience :: "(string \<times> real) list"
  completed_courses :: completed
  interests :: string
  semester :: "real option"

fun py_substring :: "string \<Rightarrow> string \<Rightarrow> bool" where
  \<comment> \<open>\<^verbatim>\<open>s in t\<close> on strings\<close>
  "py_substring s [] = (s = [])"
| "py_substring s (c # cs) = (take (length s) (c # cs) = s \<or> py_substring s cs)"

fun py_in :: "string \<Rightarrow> completed \<Rightarrow> bool" where
  \<comment> \<open>\<^verbatim>\<open>code in completed_courses\<close>\<close>
  "py_in c (CC_Dict m) = (c \<in> set (map fst m))"
| "py_in c (CC_Set S) = (c \<in> set S)"
| "py_in c (CC_List xs) = (c \<in> set xs)"
| "py_in c (CC_Str s) = py_substring c s"

definition standardize_student_data :: "student_data \<Rightarrow> bool \<Rightarrow> student_data" where
  "standardize_student_data sd for_burnout =
    sd \<lparr> desired_outcomes := (case desired_outcomes sd of None \<Rightarrow> Some [] | Some s \<Rightarrow> Some s),
         completed_courses :=
           (if for_burnout then
              (case completed_courses sd of
                 CC_List xs \<Rightarrow> CC_Dict (map (\<lambda>c. (c, Details None None None)) (remdups xs))
               | CC_Set S \<Rightarrow> CC_Dict (map (\<lambda>c. (c, Details None None None)) (remdups S))
               | other \<Rightarrow> other)
            else
              (case completed_courses sd of
                 CC_Dict m \<Rightarrow> CC_Set (map fst m)
               | CC_List xs \<Rightarrow> CC_Set (remdups xs)
               | other \<Rightarrow> other)) \<rparr>"

subsection \<open>Strings\<close>

definition is_space :: "char \<Rightarrow> bool" where
  \<comment> \<open>the ASCII characters \<^verbatim>\<open>str.strip()\<close> removes\<close>
  "is_space c = (let n = (of_char c :: nat) in (9 \<le> n \<and> n \<le> 13) \<or> (28 \<le> n \<and> n \<le> 32))"

definition py_strip :: "string \<Rightarrow> string" where
  "py_strip s = rev (dropWhile is_space (rev (dropWhile is_space s)))"

definition lower_char :: "char \<Rightarrow> char" where
  \<comment> \<open>ASCII letters only\<close>
  "lower_char c =
    (case map_of (zip ''ABCDEFGHIJKLMNOPQRSTUVWXYZ'' ''abcdefghijklmnopqrstuvwxyz'') c of
       Some l \<Rightarrow> l | None \<Rightarrow> c)"

definition upper_char :: "char \<Rightarrow> char" where
  "upper_char c =
    (case map_of (zip ''abcdefghijklmnopqrstuvwxyz'' ''ABCDEFGHIJKLMNOPQRSTUVWXYZ'') c of
       Some u \<Rightarrow> u | None \<Rightarrow> c)"

definition py_lower :: "string \<Rightarrow> string" where
  "py_lower s = map lower_char s"

definition py_upper :: "string \<Rightarrow> string" where
  "py_upper s = map upper_char s"

fun split_acc :: "char \<Rightarrow> string \<Rightarrow> string \<Rightarrow> string list" where
  "split_acc sep cur [] = [rev cur]"
| "split_acc sep cur (c # cs) =
    (if c = sep then rev cur # split_acc sep [] cs else split_acc sep (c # cur) cs)"

definition py_split :: "string \<Rightarrow> char \<Rightarrow> string list" where
  \<comment> \<open>\<^verbatim>\<open>s.split(sep)\<close> for a separator of one character; the empty string gives \<open>['']\<close>\<close>
  "py_split s sep = split_acc sep [] s"

subsection \<open>Prerequisites (utils.py)\<close>

definition prerequisites_satisfied :: "string \<Rightarrow> student_data \<Rightarrow> prereq list \<Rightarrow> bool" where
  "prerequisites_satisfied course_code sd prereqs_df =
    (let prereqs = set (map prereq_subject_code
                     (filter (\<lambda>p. pre_subject_code p = course_code) prereqs_df));
         completed =
           (case completed_courses sd of
              CC_Dict m \<Rightarrow> set (map fst m)
            | CC_Set S \<Rightarrow> set S
            | CC_List xs \<Rightarrow> set xs
            | CC_Str s \<Rightarrow>
                set (map (\<lambda>c. py_upper (py_strip c))
                       (filter (\<lambda>c. py_strip c \<noteq> []) (py_split s CHR '',''))))
     in prereqs \<subseteq> completed)"

subsection \<open>The three burnout factors\<close>

definition workload_factor :: "string \<Rightarrow> subject list \<Rightarrow> max_values \<Rightarrow> error + pyfloat" where
  "workload_factor code subjects_df mv =
    ebind (iloc0 (get_subject subjects_df code)) (\<lambda>subject.
    ebind (field_or subject ''hours_per_week'' 0) (\<lambda>H.
    ebind (field_or subject ''num_assignments'' 0) (\<lambda>n_assignments.
    ebind (field_or subject ''hours_per_assignment'' 0) (\<lambda>h_per_assignment.
    ebind (field_or subject ''assignment_weight'' 0) (\<lambda>a_weight.
    ebind (field_or subject ''avg_project_grade'' 0) (\<lambda>avg_p_grade.
    ebind (field_or subject ''project_weight'' 0) (\<lambda>p_weight.
    ebind (field_or subject ''exam_count'' 0) (\<lambda>e_count.
    ebind (field_or subject ''avg_exam_grade'' 0) (\<lambda>avg_e_grade.
    ebind (field_or subject ''exam_weight'' 0) (\<lambda>e_weight.
      let A = n_assignments * h_per_assignment * a_weight;
          P = (100 - avg_p_grade) * p_weight;
          E = e_count * (100 - avg_e_grade) * e_weight
      in Inr (fadd (fadd (fadd (flog (fadd (Some 1) (fdiv (Some H) (Hmax mv))))
                               (fdiv (Some A) (Amax mv)))
                         (fdiv (Some P) (Pmax mv)))
                   (fdiv (Some E) (Emax mv)))))))))))))"

definition proficiency :: "real \<Rightarrow> real" where
  \<comment> \<open>\<^verbatim>\<open>min(max(level / 3.0, 0), 1)\<close>\<close>
  "proficiency level = min (max (level / 3) 0) 1"

definition mismatch_of :: "student_data \<Rightarrow> requirement \<Rightarrow> real" where
  \<comment> \<open>what one requirement adds to \<^verbatim>\<open>total_mismatch\<close>\<close>
  "mismatch_of sd req =
    (case (if req_type req = ''programming'' then map_of (programming_experience sd) (req_name req)
           else None) of
       Some level \<Rightarrow> 1 - proficiency level
     | None \<Rightarrow>
         (case (if req_type req = ''math'' then map_of (math_experience sd) (req_name req)
                else None) of
            Some level \<Rightarrow> 1 - proficiency level
          | None \<Rightarrow> 1))"

definition calculate_prerequisite_mismatch_factor ::
    "student_data \<Rightarrow> string \<Rightarrow> requirement frame \<Rightarrow> prereq list \<Rightarrow> error + real" where
  \<comment> \<open>line 51 selects the \<^verbatim>\<open>subject_code\<close> column first\<close>
  "calculate_prerequisite_mismatch_factor sd code requirements_df prereqs_df =
    (case requirements_df of
       NoColumns \<Rightarrow> Inl KeyError
     | Rows rows \<Rightarrow>
         let subject_reqs = filter (\<lambda>r. req_subject_code r = code) rows;
             T = length subject_reqs
         in if T = 0 then Inr 0
            else Inr ((1 / real T)
                      * fold (\<lambda>req total_mismatch. total_mismatch + mismatch_of sd req)
                          subject_reqs 0))"

definition clamp_grade :: "real \<Rightarrow> real" where
  \<comment> \<open>\<^verbatim>\<open>max(0, min(100, G))\<close>\<close>
  "clamp_grade G = max 0 (min 100 G)"

definition completed_grades ::
    "student_data \<Rightarrow> string \<Rightarrow> real \<times> real \<times> real \<Rightarrow> error + real \<times> real \<times> real" where
  \<comment> \<open>the grades GA, GE, GP: the student's own where recorded, the defaults otherwise\<close>
  "completed_grades sd code defaults =
    (case defaults of (default_GA, default_GE, default_GP) \<Rightarrow>
      if py_in code (completed_courses sd) then
        (case completed_courses sd of
           CC_Dict m \<Rightarrow>
             (case map_of m code of
                Some (Details ga ge gp) \<Rightarrow>
                  Inr (case_option default_GA id ga, case_option default_GE id ge,
                       case_option default_GP id gp)
              | Some NotADict \<Rightarrow> Inr defaults
              | None \<Rightarrow> Inl KeyError)
         | other \<Rightarrow> Inl TypeError)
      else Inr defaults)"

definition calculate_stress_factor :: "student_data \<Rightarrow> string \<Rightarrow> subject list \<Rightarrow> error + real" where
  "calculate_stress_factor sd code subjects_df =
    ebind (iloc0 (get_subject subjects_df code)) (\<lambda>subject.
    ebind (field_or subject ''avg_assignment_grade'' 70) (\<lambda>default_GA.
    ebind (field_or subject ''avg_exam_grade'' 70) (\<lambda>default_GE.
    ebind (field_or subject ''avg_project_grade'' 70) (\<lambda>default_GP.
    ebind (field_or subject ''assignment_weight'' 0) (\<lambda>Aw.
    ebind (field_or subject ''exam_weight'' 0) (\<lambda>Ew.
    ebind (field_or subject ''project_weight'' 0) (\<lambda>Pw.
    ebind (completed_grades sd code (default_GA, default_GE, default_GP)) (\<lambda>(GA, GE, GP).
      let total_weight = Aw + Ew + Pw in
      if total_weight = 0 then Inr 0
      else
        let stress_assignments = ((100 - clamp_grade GA) / 100)\<^sup>2 * Aw;
            stress_exams = ((100 - clamp_grade GE) / 100)\<^sup>2 * Ew;
            stress_projects = ((100 - clamp_grade GP) / 100)\<^sup>2 * Pw
        in Inr ((stress_assignments + stress_exams + stress_projects) / total_weight)))))))))"

subsection \<open>The burnout probability\<close>

record weights =
  w1 :: real
  w2 :: real
  w3 :: real
  k_sigmoid :: real
  P0 :: real

definition default_weights :: weights where
  "default_weights = \<lparr> w1 = 4 / 10, w2 = 3 / 10, w3 = 3 / 10, k_sigmoid = 4, P0 = 1 / 2 \<rparr>"

definition P_prime :: "weights \<Rightarrow> pyfloat \<Rightarrow> real \<Rightarrow> real \<Rightarrow> pyfloat" where
  \<comment> \<open>\<^verbatim>\<open>w1 * W' + w2 * M' + w3 * S'\<close>\<close>
  "P_prime ws W_prime M_prime S_prime =
    fadd (fadd (fmul (Some (w1 ws)) W_prime) (Some (w2 ws * M_prime))) (Some (w3 ws * S_prime))"

definition P_final :: "weights \<Rightarrow> pyfloat \<Rightarrow> pyfloat" where
  \<comment> \<open>\<^verbatim>\<open>1 / (1 + np.exp(-k * (P' - P0)))\<close>\<close>
  "P_final ws P = map_option (\<lambda>p. 1 / (1 + exp (- k_sigmoid ws * (p - P0 ws)))) P"

definition calculate_burnout ::
    "student_data \<Rightarrow> string \<Rightarrow> subject list \<Rightarrow> requirement frame \<Rightarrow> prereq list \<Rightarrow>
     outcome frame \<Rightarrow> max_values option \<Rightarrow> weights option \<Rightarrow> error + pyfloat" where
  "calculate_burnout sd0 code subjects_df requirements_df prereqs_df outcomes_df mv0 ws0 =
    (let ws = (case ws0 of None \<Rightarrow> default_weights | Some w \<Rightarrow> w);
         sd = standardize_student_data sd0 True;
         mv = (case mv0 of None \<Rightarrow> precalculate_max_values subjects_df | Some m \<Rightarrow> m)
     in
       ebind (workload_factor code subjects_df mv) (\<lambda>W_prime.
       ebind (calculate_prerequisite_mismatch_factor sd code requirements_df prereqs_df)
         (\<lambda>M_prime.
       ebind (calculate_stress_factor sd code subjects_df) (\<lambda>S_prime.
         Inr (P_final ws (P_prime ws W_prime M_prime S_prime))))))"

subsection \<open>Burnout scores of the whole catalog\<close>

record score_row =
  sr_subject_code :: string
  sr_subject_name :: pyval
  burnout_score :: pyfloat
  prerequisites :: "string list"
  sr_prerequisites_satisfied :: bool
  utility :: real

definition round_half_even :: "real \<Rightarrow> int" where
  "round_half_even x =
    (let f = \<lfloor>x\<rfloor>; d = x - of_int f
     in if d < 1 / 2 then f else if 1 / 2 < d then f + 1 else if even f then f else f + 1)"

definition round3 :: "pyfloat \<Rightarrow> pyfloat" where
  \<comment> \<open>\<^verbatim>\<open>round(burnout, 3)\<close>\<close>
  "round3 b = map_option (\<lambda>x. of_int (round_half_even (x * 1000)) / 1000) b"

definition scores_subject_name :: "subject list \<Rightarrow> string \<Rightarrow> error + pyval" where
  \<comment> \<open>\<^verbatim>\<open>get_subject(..).iloc[0]['name'] if not get_subject(..).empty else "Unknown course"\<close>\<close>
  "scores_subject_name subjects_df code =
    (case get_subject subjects_df code of
       PySeries r \<Rightarrow> ebind (iloc0 (PySeries r)) (\<lambda>v. getitem v ''name'')
     | other \<Rightarrow> Inl AttributeError)"

fun scores_loop ::
    "student_data \<Rightarrow> subject list \<Rightarrow> requirement frame \<Rightarrow> prereq list \<Rightarrow> outcome frame \<Rightarrow>
     max_values \<Rightarrow> string list \<Rightarrow> error + score_row list" where
  "scores_loop sd subjects_df requirements_df prereqs_df outcomes_df mv [] = Inr []"
| "scores_loop sd subjects_df requirements_df prereqs_df outcomes_df mv (code # rest) =
    (if py_in code (completed_courses sd)
     then scores_loop sd subjects_df requirements_df prereqs_df outcomes_df mv rest
     else
       ebind (calculate_burnout sd code subjects_df requirements_df prereqs_df outcomes_df
                (Some mv) None) (\<lambda>burnout.
       ebind (scores_subject_name subjects_df code) (\<lambda>subject_name.
       ebind (scores_loop sd subjects_df requirements_df prereqs_df outcomes_df mv rest) (\<lambda>scores.
         Inr (\<lparr> sr_subject_code = code,
                sr_subject_name = subject_name,
                burnout_score = round3 burnout,
                prerequisites = map prereq_subject_code
                                  (filter (\<lambda>p. pre_subject_code p = code) prereqs_df),
                sr_prerequisites_satisfied = prerequisites_satisfied code sd prereqs_df,
                utility = 0 \<rparr> # scores)))))"

definition burnout_key :: "score_row \<Rightarrow> bool \<times> real" where
  \<comment> \<open>ascending by burnout score, NaN last\<close>
  "burnout_key r = (case burnout_score r of None \<Rightarrow> (True, 0) | Some b \<Rightarrow> (False, b))"

definition calculate_scores ::
    "student_data \<Rightarrow> subject list \<Rightarrow> outcome frame \<Rightarrow> prereq list \<Rightarrow> requirement frame \<Rightarrow>
     error + score_row list" where
  \<comment> \<open>\<^verbatim>\<open>calculate_scores(nuid)\<close> after its reads: the tables and the parsed profile.
      A frame built from no rows has no \<^verbatim>\<open>burnout_score\<close> column to sort by.\<close>
  "calculate_scores sd subjects_df outcomes_df prereqs_df requirements_df =
    (let mv = precalculate_max_values subjects_df in
     ebind (scores_loop sd subjects_df requirements_df prereqs_df outcomes_df mv
              (map subject_code subjects_df)) (\<lambda>scores.
       if scores = [] then Inl KeyError else Inr (sort_key burnout_key scores)))"

subsection \<open>Utility (ga_recommender.py)\<close>

definition jaccard_similarity :: "string set \<Rightarrow> string set \<Rightarrow> real" where
  "jaccard_similarity set1 set2 =
    (if set1 = {} \<or> set2 = {} then 0
     else
       let intersection = card (set1 \<inter> set2); union = card (set1 \<union> set2)
       in if union = 0 then 0 else real intersection / real union)"

definition calculate_outcome_alignment_score ::
    "student_data \<Rightarrow> string \<Rightarrow> outcome frame \<Rightarrow> error + real" where
  \<comment> \<open>with desired outcomes, line 37 selects the \<^verbatim>\<open>subject_code\<close> column\<close>
  "calculate_outcome_alignment_score sd code outcomes_df =
    (case desired_outcomes sd of
       None \<Rightarrow> Inr 0
     | Some d \<Rightarrow>
         if d = [] then Inr 0
         else
           (case outcomes_df of
              NoColumns \<Rightarrow> Inl KeyError
            | Rows rows \<Rightarrow>
                let student_outcomes = set (map py_strip (py_split d CHR '',''));
                    subject_outcomes = set (map out_outcome
                                         (filter (\<lambda>r. out_subject_code r = code) rows))
                in Inr (jaccard_similarity student_outcomes subject_outcomes)))"

record utility_weights =
  alpha :: real
  beta :: real
  delta :: real

definition default_utility_weights :: utility_weights where
  "default_utility_weights = \<lparr> alpha = 1 / 2, beta = 1 / 2, delta = 1 / 2 \<rparr>"

definition prereq_penalty :: "student_data \<Rightarrow> string list \<Rightarrow> real" where
  "prereq_penalty sd prereq_courses =
    (if prereq_courses \<noteq> [] then
       (let prereqs_satisfied = list_all (\<lambda>p. py_in p (completed_courses sd)) prereq_courses
        in if \<not> prereqs_satisfied then 1 else 0)
     else 0)"

definition calculate_utility ::
    "student_data \<Rightarrow> string \<Rightarrow> subject list \<Rightarrow> requirement frame \<Rightarrow> prereq list \<Rightarrow>
     outcome frame \<Rightarrow> utility_weights option \<Rightarrow> error + pyfloat" where
  "calculate_utility sd code subjects_df requirements_df prereqs_df outcomes_df uw0 =
    (let uw = (case uw0 of None \<Rightarrow> default_utility_weights | Some u \<Rightarrow> u);
         burnout_student_data = standardize_student_data sd True
     in
       ebind (calculate_burnout burnout_student_data code subjects_df requirements_df prereqs_df
                outcomes_df None None) (\<lambda>burnout_prob.
       ebind (calculate_outcome_alignment_score sd code outcomes_df) (\<lambda>oas.
         let prereq_courses = map prereq_subject_code
                                (filter (\<lambda>p. pre_subject_code p = code) prereqs_df)
         in Inr (fsub (fadd (Some (alpha uw * oas))
                            (fmul (Some (beta uw)) (fsub (Some 1) burnout_prob)))
                      (Some (delta uw * prereq_penalty sd prereq_courses))))))"

subsection \<open>Enrollment likelihood\<close>

definition calculate_enrollment_likelihood :: "real \<Rightarrow> bool \<Rightarrow> real \<Rightarrow> real \<Rightarrow> real" where
  "calculate_enrollment_likelihood sem core n_seats n_enrollments =
    (let seats_ratio = (if 0 < n_seats then (n_seats - n_enrollments) / n_seats else 0);
         base_likelihood = (if seats_ratio \<le> 0 then 1 / 10 else seats_ratio);
         semester_multiplier = min (sem / 4) 1;
         core_multiplier = (if core then 3 / 2 else 1);
         final_likelihood = base_likelihood * semester_multiplier * core_multiplier
     in min final_likelihood 1)"

subsection \<open>Matching courses\<close>

text \<open>The reason strings, by kind; a formatted number is kept as the number.\<close>

datatype reason =
    TitleMatches string
  | CoversTopics string
  | IncludesKeyword string
  | PrerequisitesNotCompleted
  | LowBurnoutRisk real
  | LowModerateBurnoutRisk real
  | HighBurnoutRisk real
  | CoreSubjectRequirement

record course =
  mc_subject_code :: string
  mc_name :: string
  match_score :: real
  likelihood :: real
  seats :: real
  enrollments :: real
  mc_burnout_score :: "pyfloat option"
  utility_score :: "real option"
  reasons :: "reason list"
  is_core :: bool

definition interest_keywords :: "(string \<times> string list) list" where
  "interest_keywords =
    [(''ai'', [''artificial intelligence'', ''machine learning'', ''deep learning'', ''neural'', ''nlp'']),
     (''web'', [''web'', ''javascript'', ''frontend'', ''backend'', ''full-stack'', ''react'', ''node'']),
     (''data'', [''data'', ''analytics'', ''database'', ''sql'', ''big data'', ''visualization'']),
     (''security'', [''security'', ''cryptography'', ''cyber'', ''network security'']),
     (''mobile'', [''mobile'', ''ios'', ''android'', ''app development'']),
     (''systems'', [''operating system'', ''distributed'', ''parallel'', ''architecture'']),
     (''programming'', [''python'', ''java'', ''c++'', ''algorithms'', ''software engineering'']),
     (''computer science'', [''algorithms'', ''data structures'', ''programming'', ''software''])]"

definition student_interests_of :: "student_data \<Rightarrow> string list" where
  "student_interests_of sd =
    (let student_interests = map (\<lambda>i. py_strip (py_lower i)) (py_split (interests sd) CHR '','')
     in if student_interests = [] \<or> (length student_interests = 1 \<and> hd student_interests = [])
        then [''computer science'', ''data science'', ''programming'']
        else student_interests)"

definition interest_step :: "string \<Rightarrow> string \<Rightarrow> string \<Rightarrow> real \<times> reason list \<Rightarrow> real \<times> reason list" where
  \<comment> \<open>one round of the first loop over the interests\<close>
  "interest_step course_name outcomes_text interest acc =
    (let acc1 = (if py_substring interest course_name
                 then (fst acc + 4 / 10, snd acc @ [TitleMatches interest]) else acc)
     in if py_substring interest outcomes_text
        then (fst acc1 + 3 / 10, snd acc1 @ [CoversTopics interest]) else acc1)"

definition keyword_step :: "string \<Rightarrow> string \<Rightarrow> real \<times> reason list \<Rightarrow> real \<times> reason list" where
  \<comment> \<open>one round of the second loop: every keyword of the interest's category\<close>
  "keyword_step outcomes_text interest acc =
    (case map_of interest_keywords interest of
       None \<Rightarrow> acc
     | Some keywords \<Rightarrow>
         fold (\<lambda>keyword a. if py_substring keyword outcomes_text
                            then (fst a + 2 / 10, snd a @ [IncludesKeyword keyword]) else a)
              keywords acc)"

definition is_core_subject :: "student_data \<Rightarrow> string \<Rightarrow> bool" where
  \<comment> \<open>\<^verbatim>\<open>course['subject_code'] in student_data['core_subjects'].split(',')\<close>\<close>
  "is_core_subject sd code = (code \<in> set (py_split (core_subjects sd) CHR '',''))"

definition nan_to_zero :: "pyfloat \<Rightarrow> real" where
  \<comment> \<open>\<^verbatim>\<open>x if pd.notna(x) else 0\<close>\<close>
  "nan_to_zero x = (case x of None \<Rightarrow> 0 | Some v \<Rightarrow> v)"

definition course_likelihood :: "student_data \<Rightarrow> subject \<Rightarrow> real" where
  \<comment> \<open>step 3, inside \<^verbatim>\<open>try\<close>: a profile whose semester is missing or not a number
      makes the call raise, and the likelihood is 0.5\<close>
  "course_likelihood sd c =
    (case semester sd of
       None \<Rightarrow> 1 / 2
     | Some sem \<Rightarrow>
         calculate_enrollment_likelihood sem (is_core_subject sd (subject_code c))
           (nan_to_zero (Seats c)) (nan_to_zero (Enrollments c)))"

definition burnout_step ::
    "score_row list option \<Rightarrow> string \<Rightarrow> real \<times> reason list \<Rightarrow>
     (real \<times> reason list) \<times> pyfloat option \<times> real option" where
  \<comment> \<open>step 5: the score and reasons after it, the burnout score and the utility score\<close>
  "burnout_step burnout_scores_df code acc =
    (case burnout_scores_df of
       None \<Rightarrow> (acc, None, None)
     | Some df \<Rightarrow>
         (case filter (\<lambda>r. sr_subject_code r = code) df of
            [] \<Rightarrow> (acc, None, None)
          | burnout_row # rest \<Rightarrow>
              (let u = utility burnout_row in
               ((if 0 < u then
                   (fst acc + u * (1 / 2),
                    snd acc @ [if 15 / 100 < u then LowBurnoutRisk u else LowModerateBurnoutRisk u])
                 else if u < 0 then (fst acc * (1 + u), snd acc @ [HighBurnoutRisk u])
                 else acc),
                Some (burnout_score burnout_row), Some u))))"

definition course_score ::
    "student_data \<Rightarrow> string list \<Rightarrow> prereq list \<Rightarrow> score_row list option \<Rightarrow> subject \<Rightarrow>
     (real \<times> reason list) \<times> pyfloat option \<times> real option" where
  \<comment> \<open>steps 1, 2, 4 and 5 of the loop body: the score and the reasons ahead of the
      inclusion test, with the burnout score and the utility score\<close>
  "course_score sd student_interests prereqs_df burnout_scores_df c =
    (let course_name = py_lower (name c);
         outcomes_text = (case course_outcomes c of None \<Rightarrow> [] | Some t \<Rightarrow> py_lower t);
         acc1 = fold (interest_step course_name outcomes_text) student_interests (0, []);
         acc2 = fold (keyword_step outcomes_text) student_interests acc1;
         acc3 = (if \<not> prerequisites_satisfied (subject_code c) sd prereqs_df
                 then (fst acc2 * (1 / 2), snd acc2 @ [PrerequisitesNotCompleted]) else acc2)
     in burnout_step burnout_scores_df (subject_code c) acc3)"

definition match_course ::
    "student_data \<Rightarrow> string list \<Rightarrow> prereq list \<Rightarrow> score_row list option \<Rightarrow> subject \<Rightarrow>
     course option" where
  \<comment> \<open>the body of the loop over the catalog: the entry appended for one course, if any\<close>
  "match_course sd student_interests prereqs_df burnout_scores_df c =
    (if py_in (subject_code c) (completed_courses sd) then None
     else
       let step5 = course_score sd student_interests prereqs_df burnout_scores_df c;
           score = fst (fst step5);
           lik = course_likelihood sd c;
           core = is_core_subject sd (subject_code c)
       in if 3 / 10 < score \<or> core then
            Some \<lparr> mc_subject_code = subject_code c,
                   mc_name = name c,
                   match_score = (if core then score + 1 / 2 else score),
                   likelihood = lik,
                   seats = nan_to_zero (Seats c),
                   enrollments = nan_to_zero (Enrollments c),
                   mc_burnout_score = fst (snd step5),
                   utility_score = snd (snd step5),
                   reasons = (if core then snd (fst step5) @ [CoreSubjectRequirement]
                              else snd (fst step5)),
                   is_core = core \<rparr>
          else None)"

definition composite :: "course \<Rightarrow> real" where
  "composite x = match_score x * (1 / 2)
               + (case utility_score x of None \<Rightarrow> 0 | Some u \<Rightarrow> u) * (3 / 10)
               + likelihood x * (2 / 10)"

definition ranking_key :: "course \<Rightarrow> bool \<times> real" where
  "ranking_key x = (is_core x, composite x)"

definition sort_reverse :: "('a \<Rightarrow> 'k::linorder) \<Rightarrow> 'a list \<Rightarrow> 'a list" where
  \<comment> \<open>\<^verbatim>\<open>xs.sort(key=f, reverse=True)\<close>: stable, greatest key first\<close>
  "sort_reverse f xs = rev (sort_key f (rev xs))"

definition find_matching_courses ::
    "student_data \<Rightarrow> subject list \<Rightarrow> outcome frame \<Rightarrow> prereq list \<Rightarrow> 'c \<Rightarrow>
     score_row list option \<Rightarrow> course list" where
  "find_matching_courses sd subjects_df outcomes_df prereqs_df coreqs_df burnout_scores_df =
    sort_reverse ranking_key
      (List.map_filter (match_course sd (student_interests_of sd) prereqs_df burnout_scores_df)
         subjects_df)"

fun py_join :: "string \<Rightarrow> string list \<Rightarrow> string" where
  "py_join sep [] = []"
| "py_join sep [x] = x"
| "py_join sep (x # y # ys) = x @ sep @ py_join sep (y # ys)"

definition add_interests :: "student_data \<Rightarrow> string list \<Rightarrow> student_data" where
  \<comment> \<open>\<^verbatim>\<open>if additional_interests: student_data['interests'] += ',' + ','.join(..)\<close>\<close>
  "add_interests sd additional_interests =
    (if additional_interests \<noteq> []
     then sd \<lparr> interests := interests sd @ '','' @ py_join '','' additional_interests \<rparr>
     else sd)"

definition generate_recommendations ::
    "subject list \<Rightarrow> outcome frame \<Rightarrow> prereq list \<Rightarrow> 'c \<Rightarrow> score_row list option \<Rightarrow>
     student_data option \<Rightarrow> string list \<Rightarrow> (course list \<times> course list) option" where
  \<comment> \<open>\<^verbatim>\<open>generate_recommendations\<close> after its reads: the tables, the burnout scores
      file if there is one, and what \<^verbatim>\<open>get_student_data\<close> returned\<close>
  "generate_recommendations subjects_df outcomes_df prereqs_df coreqs_df burnout_scores_df
       student additional_interests =
    (case student of
       None \<Rightarrow> None
     | Some sd0 \<Rightarrow>
         let sd = add_interests sd0 additional_interests;
             matching_courses = find_matching_courses sd subjects_df outcomes_df prereqs_df
                                  coreqs_df burnout_scores_df
         in Some (filter (\<lambda>c. \<not> likelihood c < 3 / 10) matching_courses,
                  filter (\<lambda>c. likelihood c < 3 / 10) matching_courses))"

subsection \<open>The store: the objects a call can reach\<close>

text \<open>
  A profile is a Python dictionary whose entries may refer to further dictionaries,
  lists and sets; all of these are mutable and are passed by reference. Here they live
  in a store: an object's address is its index, a new object takes the next index, and
  no object is freed. Every dictionary creation and every item assignment of
  \<^verbatim>\<open>standardize_student_data\<close>, \<^verbatim>\<open>calculate_burnout\<close> and \<^verbatim>\<open>calculate_utility\<close> is an
  operation on the store. The tables, and weights or maxima the caller supplies, are only
  read (indexed, filtered, aggregated) and are passed by value. Neither module has a
  global that is assigned to.
\<close>

type_synonym addr = nat

datatype pyitem = VNone | VStr string | VFloat pyfloat | VRef addr

datatype pyobj =
    ODict "(string \<times> pyitem) list"
  | OList "string list"
  | OSet "string list"

type_synonym store = "pyobj list"

definition deref :: "store \<Rightarrow> addr \<Rightarrow> pyobj option" where
  "deref h a = (if a < length h then Some (h ! a) else None)"

definition is_dict :: "store \<Rightarrow> addr \<Rightarrow> bool" where
  "is_dict h a = (case deref h a of Some (ODict items) \<Rightarrow> True | _ \<Rightarrow> False)"

definition extends :: "store \<Rightarrow> store \<Rightarrow> bool" where
  \<comment> \<open>the later store holds every object of the earlier one, unchanged\<close>
  "extends h h' \<longleftrightarrow> length h \<le> length h' \<and> take (length h) h' = h"

definition alloc :: "pyobj \<Rightarrow> store \<Rightarrow> addr \<times> store" where
  \<comment> \<open>a new object\<close>
  "alloc ob h = (length h, h @ [ob])"

definition items_set :: "string \<Rightarrow> pyitem \<Rightarrow> (string \<times> pyitem) list \<Rightarrow> (string \<times> pyitem) list" where
  "items_set k v items =
    (if k \<in> set (map fst items)
     then map (\<lambda>kv. if fst kv = k then (k, v) else kv) items
     else items @ [(k, v)])"

definition set_item :: "addr \<Rightarrow> string \<Rightarrow> pyitem \<Rightarrow> store \<Rightarrow> store" where
  \<comment> \<open>\<^verbatim>\<open>d[k] = v\<close>, written into the dictionary at the address\<close>
  "set_item a k v h =
    (case deref h a of
       Some (ODict items) \<Rightarrow> h[a := ODict (items_set k v items)]
     | _ \<Rightarrow> h)"

definition get_or :: "(string \<times> pyitem) list \<Rightarrow> string \<Rightarrow> pyitem \<Rightarrow> pyitem" where
  \<comment> \<open>\<^verbatim>\<open>d.get(k, default)\<close>\<close>
  "get_or items k d = (case map_of items k of Some v \<Rightarrow> v | None \<Rightarrow> d)"

definition get_or_new_dict :: "(string \<times> pyitem) list \<Rightarrow> string \<Rightarrow> store \<Rightarrow> pyitem \<times> store" where
  \<comment> \<open>\<^verbatim>\<open>d.get(k, {})\<close>: the default dictionary is built before the lookup\<close>
  "get_or_new_dict items k h =
    (let (d, h1) = alloc (ODict []) h in (get_or items k (VRef d), h1))"

fun courses_loop :: "addr \<Rightarrow> string list \<Rightarrow> store \<Rightarrow> store" where
  "courses_loop d [] h = h"
| "courses_loop d (c # cs) h =
    (let (e, h1) = alloc (ODict []) h in courses_loop d cs (set_item d c (VRef e) h1))"

definition dict_of_courses :: "string list \<Rightarrow> store \<Rightarrow> pyitem \<times> store" where
  \<comment> \<open>\<^verbatim>\<open>{course: {} for course in completed_courses}\<close>\<close>
  "dict_of_courses xs h = (let (d, h1) = alloc (ODict []) h in (VRef d, courses_loop d xs h1))"

definition set_of_courses :: "string list \<Rightarrow> store \<Rightarrow> pyitem \<times> store" where
  \<comment> \<open>\<^verbatim>\<open>set(..)\<close>\<close>
  "set_of_courses xs h = (let (s, h1) = alloc (OSet (remdups xs)) h in (VRef s, h1))"

definition convert_completed :: "bool \<Rightarrow> pyitem \<Rightarrow> store \<Rightarrow> pyitem \<times> store" where
  \<comment> \<open>the \<^verbatim>\<open>isinstance\<close> cascade on \<^verbatim>\<open>completed_courses\<close>; otherwise the same object\<close>
  "convert_completed for_burnout cc h =
    (case cc of
       VRef q \<Rightarrow>
         (case deref h q of
            Some (OList xs) \<Rightarrow>
              (if for_burnout then dict_of_courses xs h else set_of_courses xs h)
          | Some (OSet xs) \<Rightarrow> (if for_burnout then dict_of_courses xs h else (cc, h))
          | Some (ODict items) \<Rightarrow>
              (if for_burnout then (cc, h) else set_of_courses (map fst items) h)
          | None \<Rightarrow> (cc, h))
     | other \<Rightarrow> (cc, h))"

definition copy_if_present :: "(string \<times> pyitem) list \<Rightarrow> addr \<Rightarrow> string \<Rightarrow> store \<Rightarrow> store" where
  \<comment> \<open>\<^verbatim>\<open>if key in student_data: result[key] = student_data[key]\<close>\<close>
  "copy_if_present items r k h =
    (case map_of items k of Some v \<Rightarrow> set_item r k v h | None \<Rightarrow> h)"

definition standardize_student_data_st :: "addr \<Rightarrow> bool \<Rightarrow> store \<Rightarrow> (error + addr) \<times> store" where
  \<comment> \<open>\<^verbatim>\<open>standardize_student_data\<close> on the store: the address of \<^verbatim>\<open>result\<close>\<close>
  "standardize_student_data_st sd for_burnout h =
    (case deref h sd of
       Some (ODict student) \<Rightarrow>
         (let (r, h1) = alloc (ODict [(''NUid'', get_or student ''NUid'' (VStr [])),
                                     (''desired_outcomes'',
                                        get_or student ''desired_outcomes'' (VStr [])),
                                     (''core_subjects'',
                                        get_or student ''core_subjects'' (VStr []))]) h;
              (pe, h2) = get_or_new_dict student ''programming_experience'' h1;
              h3 = set_item r ''programming_experience'' pe h2;
              (me, h4) = get_or_new_dict student ''math_experience'' h3;
              h5 = set_item r ''math_experience'' me h4;
              (cc0, h6) = get_or_new_dict student ''completed_courses'' h5;
              (cc, h7) = convert_completed for_burnout cc0 h6;
              h8 = set_item r ''completed_courses'' cc h7;
              h9 = copy_if_present student r ''interests'' h8;
              h10 = copy_if_present student r ''semester'' h9
          in (Inr r, h10))
     | other \<Rightarrow> (Inl AttributeError, h))"

text \<open>Reading a profile off the store, as the record the factor functions take.\<close>

definition read_str :: "(string \<times> pyitem) list \<Rightarrow> string \<Rightarrow> error + string" where
  "read_str items k =
    (case map_of items k of
       None \<Rightarrow> Inr []
     | Some (VStr s) \<Rightarrow> Inr s
     | Some other \<Rightarrow> Inl TypeError)"

definition read_level :: "string \<times> pyitem \<Rightarrow> (string \<times> real) option" where
  "read_level kv = (case snd kv of VFloat (Some x) \<Rightarrow> Some (fst kv, x) | other \<Rightarrow> None)"

definition read_experience ::
    "store \<Rightarrow> (string \<times> pyitem) list \<Rightarrow> string \<Rightarrow> error + (string \<times> real) list" where
  "read_experience h items k =
    (case map_of items k of
       None \<Rightarrow> Inr []
     | Some (VRef q) \<Rightarrow>
         (case deref h q of
            Some (ODict levels) \<Rightarrow>
              (if list_all (\<lambda>kv. read_level kv \<noteq> None) levels
               then Inr (List.map_filter read_level levels) else Inl TypeError)
          | other \<Rightarrow> Inl TypeError)
     | Some other \<Rightarrow> Inl TypeError)"

definition read_grade :: "(string \<times> pyitem) list \<Rightarrow> string \<Rightarrow> real option" where
  "read_grade items k = (case map_of items k of Some (VFloat (Some x)) \<Rightarrow> Some x | other \<Rightarrow> None)"

definition read_entry :: "store \<Rightarrow> pyitem \<Rightarrow> course_entry" where
  "read_entry h v =
    (case v of
       VRef q \<Rightarrow>
         (case deref h q of
            Some (ODict items) \<Rightarrow>
              Details (read_grade items ''Avg Assignment Grade'')
                      (read_grade items ''Avg Exam Grade'')
                      (read_grade items ''Avg Project Grade'')
          | other \<Rightarrow> NotADict)
     | other \<Rightarrow> NotADict)"

definition read_completed :: "store \<Rightarrow> (string \<times> pyitem) list \<Rightarrow> error + completed" where
  "read_completed h items =
    (case map_of items ''completed_courses'' of
       None \<Rightarrow> Inr (CC_Dict [])
     | Some (VStr s) \<Rightarrow> Inr (CC_Str s)
     | Some (VRef q) \<Rightarrow>
         (case deref h q of
            Some (ODict entries) \<Rightarrow> Inr (CC_Dict (map (\<lambda>kv. (fst kv, read_entry h (snd kv))) entries))
          | Some (OList xs) \<Rightarrow> Inr (CC_List xs)
          | Some (OSet xs) \<Rightarrow> Inr (CC_Set xs)
          | None \<Rightarrow> Inl TypeError)
     | Some other \<Rightarrow> Inl TypeError)"

definition read_semester :: "(string \<times> pyitem) list \<Rightarrow> real option" where
  "read_semester items =
    (case map_of items ''semester'' of Some (VFloat (Some x)) \<Rightarrow> Some x | other \<Rightarrow> None)"

definition read_student :: "store \<Rightarrow> addr \<Rightarrow> error + student_data" where
  "read_student h a =
    (case deref h a of
       Some (ODict items) \<Rightarrow>
         ebind (read_str items ''NUid'') (\<lambda>nuid.
         ebind (read_str items ''desired_outcomes'') (\<lambda>desired.
         ebind (read_str items ''core_subjects'') (\<lambda>core.
         ebind (read_experience h items ''programming_experience'') (\<lambda>prog.
         ebind (read_experience h items ''math_experience'') (\<lambda>math.
         ebind (read_completed h items) (\<lambda>completed.
         ebind (read_str items ''interests'') (\<lambda>ints.
           Inr \<lparr> NUid = nuid,
                 desired_outcomes =
                   (if map_of items ''desired_outcomes'' = None then None else Some desired),
                 core_subjects = core, programming_experience = prog,
                 math_experience = math, completed_courses = completed,
                 interests = ints, semester = read_semester items \<rparr>)))))))
     | other \<Rightarrow> Inl AttributeError)"

definition weights_dict :: "weights \<Rightarrow> pyobj" where
  "weights_dict ws =
    ODict [(''w1'', VFloat (Some (w1 ws))), (''w2'', VFloat (Some (w2 ws))),
           (''w3'', VFloat (Some (w3 ws))), (''k'', VFloat (Some (k_sigmoid ws))),
           (''P0'', VFloat (Some (P0 ws)))]"

definition max_values_dict :: "max_values \<Rightarrow> pyobj" where
  "max_values_dict mv =
    ODict [(''Hmax'', VFloat (Hmax mv)), (''Amax'', VFloat (Amax mv)),
           (''Pmax'', VFloat (Pmax mv)), (''Emax'', VFloat (Emax mv))]"

definition utility_weights_dict :: "utility_weights \<Rightarrow> pyobj" where
  "utility_weights_dict uw =
    ODict [(''alpha'', VFloat (Some (alpha uw))), (''beta'', VFloat (Some (beta uw))),
           (''delta'', VFloat (Some (delta uw)))]"

definition default_weights_st :: "weights option \<Rightarrow> store \<Rightarrow> weights \<times> store" where
  \<comment> \<open>\<^verbatim>\<open>if weights is None: weights = {..}\<close>, a new dictionary on every such call\<close>
  "default_weights_st ws0 h =
    (case ws0 of
       None \<Rightarrow> (default_weights, snd (alloc (weights_dict default_weights) h))
     | Some w \<Rightarrow> (w, h))"

definition default_max_values_st ::
    "max_values option \<Rightarrow> subject list \<Rightarrow> store \<Rightarrow> max_values \<times> store" where
  \<comment> \<open>\<^verbatim>\<open>if max_values is None: max_values = precalculate_max_values(subjects_df)\<close>\<close>
  "default_max_values_st mv0 subjects_df h =
    (case mv0 of
       None \<Rightarrow> (precalculate_max_values subjects_df,
                snd (alloc (max_values_dict (precalculate_max_values subjects_df)) h))
     | Some m \<Rightarrow> (m, h))"

definition default_utility_weights_st ::
    "utility_weights option \<Rightarrow> store \<Rightarrow> utility_weights \<times> store" where
  "default_utility_weights_st uw0 h =
    (case uw0 of
       None \<Rightarrow> (default_utility_weights,
                snd (alloc (utility_weights_dict default_utility_weights) h))
     | Some u \<Rightarrow> (u, h))"

definition calculate_burnout_st ::
    "addr \<Rightarrow> string \<Rightarrow> subject list \<Rightarrow> requirement frame \<Rightarrow> prereq list \<Rightarrow> outcome frame \<Rightarrow>
     max_values option \<Rightarrow> weights option \<Rightarrow> store \<Rightarrow> (error + pyfloat) \<times> store" where
  \<comment> \<open>\<^verbatim>\<open>calculate_burnout\<close> on the store; the standardized profile is the new
      dictionary \<^verbatim>\<open>result\<close>, and the factors read the profile from there\<close>
  "calculate_burnout_st sd code subjects_df requirements_df prereqs_df outcomes_df mv0 ws0 h =
    (let (ws, h1) = default_weights_st ws0 h;
         (r, h2) = standardize_student_data_st sd True h1
     in case r of
          Inl e \<Rightarrow> (Inl e, h2)
        | Inr sd1 \<Rightarrow>
            (let (mv, h3) = default_max_values_st mv0 subjects_df h2
             in (ebind (workload_factor code subjects_df mv) (\<lambda>W_prime.
                 ebind (read_student h3 sd1) (\<lambda>student.
                 ebind (calculate_prerequisite_mismatch_factor student code requirements_df
                          prereqs_df) (\<lambda>M_prime.
                 ebind (calculate_stress_factor student code subjects_df) (\<lambda>S_prime.
                   Inr (P_final ws (P_prime ws W_prime M_prime S_prime)))))),
                 h3)))"

definition calculate_utility_st ::
    "addr \<Rightarrow> string \<Rightarrow> subject list \<Rightarrow> requirement frame \<Rightarrow> prereq list \<Rightarrow> outcome frame \<Rightarrow>
     utility_weights option \<Rightarrow> store \<Rightarrow> (error + pyfloat) \<times> store" where
  \<comment> \<open>\<^verbatim>\<open>calculate_utility\<close> on the store; burnout is computed on the standardized
      copy, alignment and penalty on the profile as passed\<close>
  "calculate_utility_st sd code subjects_df requirements_df prereqs_df outcomes_df uw0 h =
    (let (uw, h1) = default_utility_weights_st uw0 h;
         (r, h2) = standardize_student_data_st sd True h1
     in case r of
          Inl e \<Rightarrow> (Inl e, h2)
        | Inr burnout_student_data \<Rightarrow>
            (let (b, h3) = calculate_burnout_st burnout_student_data code subjects_df
                             requirements_df prereqs_df outcomes_df None None h2
             in (ebind b (\<lambda>burnout_prob.
                 ebind (read_student h3 sd) (\<lambda>student.
                 ebind (calculate_outcome_alignment_score student code outcomes_df) (\<lambda>oas.
                   let prereq_courses = map prereq_subject_code
                                          (filter (\<lambda>p. pre_subject_code p = code) prereqs_df)
                   in Inr (fsub (fadd (Some (alpha uw * oas))
                                      (fmul (Some (beta uw)) (fsub (Some 1) burnout_prob)))
                                (Some (delta uw * prereq_penalty student prereq_courses)))))),
                 h3)))"

subsection \<open>The enrollment likelihood as the specification words it\<close>

definition spec_enrollment_likelihood :: "real \<Rightarrow> bool \<Rightarrow> real \<Rightarrow> real \<Rightarrow> real" where
  \<comment> \<open>base = (seats - enrollments) / seats if seats > 0 else 0, floored to 0.1 when it is
      not positive; times min(semester / 4, 1) and 1.5 for a core subject; at most 1\<close>
  "spec_enrollment_likelihood sem core n_seats n_enrollments =
    (let base = (if 0 < n_seats then (n_seats - n_enrollments) / n_seats else 0);
         floored = (if base \<le> 0 then 1 / 10 else base)
     in min (floored * min (sem / 4) 1 * (if core then 3 / 2 else 1)) 1)"

subsection \<open>Example data\<close>

definition example_subject :: "string \<Rightarrow> string \<Rightarrow> real \<Rightarrow> subject" where
  "example_subject code title hours =
    \<lparr> subject_code = code, name = title, course_outcomes = Some ''Statistics, Python'',
      hours_per_week = Some hours, num_assignments = Some 5, hours_per_assignment = Some 4,
      assignment_weight = Some (3 / 10), avg_assignment_grade = Some 85,
      project_weight = Some (3 / 10), avg_project_grade = Some 80, exam_count = Some 2,
      avg_exam_grade = Some 75, exam_weight = Some (4 / 10), avg_final_grade = Some 80,
      Seats = Some 100, Enrollments = Some 95 \<rparr>"

definition blank_subject :: "string \<Rightarrow> subject" where
  \<comment> \<open>a row whose numeric cells are all missing\<close>
  "blank_subject code =
    \<lparr> subject_code = code, name = code, course_outcomes = None,
      hours_per_week = None, num_assignments = None, hours_per_assignment = None,
      assignment_weight = None, avg_assignment_grade = None, project_weight = None,
      avg_project_grade = None, exam_count = None, avg_exam_grade = None, exam_weight = None,
      avg_final_grade = None, Seats = None, Enrollments = None \<rparr>"

definition example_student :: student_data where
  "example_student =
    \<lparr> NUid = ''12345'', desired_outcomes = Some ''Statistics'',
      core_subjects = ''CS5100,CS5200'',
      programming_experience = [(''Python'', 2)], math_experience = [],
      completed_courses = CC_Set [''CS5001''],
      interests = ''data science'', semester = Some 4 \<rparr>"

definition no_requirements :: "requirement frame" where
  \<comment> \<open>what \<^verbatim>\<open>load_subject_data\<close> builds when no subject names a requirement\<close>
  "no_requirements = data_frame []"

definition no_outcomes :: "outcome frame" where
  "no_outcomes = data_frame []"

definition python_requirement :: "requirement frame" where
  \<comment> \<open>one requirement in the whole catalog: CS5100 needs Python\<close>
  "python_requirement =
    data_frame [\<lparr> req_subject_code = ''CS5100'', req_name = ''Python'',
                   req_type = ''programming'' \<rparr>]"

definition example_catalog :: "subject list" where
  "example_catalog =
    [example_subject ''CS5001'' ''Intro to Data Science'' 8,
     example_subject ''CS5100'' ''Algorithms'' 10,
     (example_subject ''CS5002'' ''Data Science'' 12)
       \<lparr> course_outcomes := Some ''Data Science, Statistics'' \<rparr>]"

definition example_core_course :: course where
  \<comment> \<open>what the matcher gives for CS5100, a core subject of the example student\<close>
  "example_core_course =
    \<lparr> mc_subject_code = ''CS5100'', mc_name = ''Algorithms'', match_score = 1 / 2,
      likelihood = 3 / 40, seats = 100, enrollments = 95, mc_burnout_score = None,
      utility_score = None, reasons = [CoreSubjectRequirement], is_core = True \<rparr>"

definition example_matched_course :: course where
  \<comment> \<open>what the matcher gives for CS5002: 100 seats, 95 enrollments, semester 4, not core\<close>
  "example_matched_course =
    \<lparr> mc_subject_code = ''CS5002'', mc_name = ''Data Science'', match_score = 7 / 10,
      likelihood = 1 / 20, seats = 100, enrollments = 95, mc_burnout_score = None,
      utility_score = None,
      reasons = [TitleMatches ''data science'', CoversTopics ''data science''],
      is_core = False \<rparr>"

definition example_store :: store where
  \<comment> \<open>the example student as objects: the profile, its two skill dictionaries, and the
      set of completed courses\<close>
  "example_store =
    [ODict [(''NUid'', VStr ''12345''), (''desired_outcomes'', VStr ''Statistics''),
            (''core_subjects'', VStr ''CS5100,CS5200''),
            (''programming_experience'', VRef 1), (''math_experience'', VRef 2),
            (''completed_courses'', VRef 3), (''interests'', VStr ''data science''),
            (''semester'', VFloat (Some 4))],
     ODict [(''Python'', VFloat (Some 2))],
     ODict [],
     OSet [''CS5001'']]"

definition completed_core_student :: student_data where
  \<comment> \<open>the example student, having completed the core subject CS5100\<close>
  "completed_core_student = example_student \<lparr> completed_courses := CC_Set [''CS5100''] \<rparr>"

definition example_prereqs :: "prereq list" where
  \<comment> \<open>CS5002 has two prerequisites; the example student has completed the first only\<close>
  "example_prereqs =
    [\<lparr> pre_subject_code = ''CS5002'', prereq_subject_code = ''CS5001'' \<rparr>,
     \<lparr> pre_subject_code = ''CS5002'', prereq_subject_code = ''CS5100'' \<rparr>]"

section \<open>Properties\<close>

subsection \<open>Looking a subject up\<close>

lemma get_subject_cases:
  "get_subject df code =
    (if code \<in> subject_code ` set df
     then PySeries (hd (filter (\<lambda>r. subject_code r = code) df)) else PyNone)"
proof (cases "filter (\<lambda>r. subject_code r = code) df")
  case Nil
  then have "code \<notin> subject_code ` set df" by (auto simp: filter_empty_conv)
  with Nil show ?thesis by (simp add: get_subject_def)
next
  case (Cons a as)
  then have "a \<in> set (filter (\<lambda>r. subject_code r = code) df)" by simp
  then have "code \<in> subject_code ` set df" by auto
  with Cons show ?thesis by (simp add: get_subject_def)
qed

text \<open>
  \<^verbatim>\<open>get_subject\<close> already returns the row (\<^verbatim>\<open>subject_rows.iloc[0]\<close>). The callers take
  \<^verbatim>\<open>.iloc[0]\<close> of it once more, which is the subject code, a string, and then index
  that string by a column name.
\<close>

lemma workload_factor_present:
  "get_subject df code = PySeries r \<Longrightarrow> workload_factor code df mv = Inl TypeError"
  by (simp add: workload_factor_def ebind_def field_or_def)

lemma workload_factor_absent:
  "get_subject df code = PyNone \<Longrightarrow> workload_factor code df mv = Inl AttributeError"
  by (simp add: workload_factor_def ebind_def)

lemma calculate_burnout_present:
  "code \<in> subject_code ` set df \<Longrightarrow>
   calculate_burnout sd code df rq pq oc mv ws = Inl TypeError"
  by (simp add: calculate_burnout_def Let_def get_subject_cases workload_factor_present ebind_def)

lemma calculate_burnout_absent:
  "code \<notin> subject_code ` set df \<Longrightarrow>
   calculate_burnout sd code df rq pq oc mv ws = Inl AttributeError"
  by (simp add: calculate_burnout_def Let_def get_subject_cases workload_factor_absent ebind_def)

subsection \<open>The closing formula of the burnout probability\<close>

lemma sigmoid_bounds: "0 < 1 / (1 + exp (x::real)) \<and> 1 / (1 + exp x) < 1"
proof -
  have "0 < exp x" by simp
  then have gt: "1 < 1 + exp x" by simp
  then have pos: "0 < 1 + exp x" by linarith
  have "1 / (1 + exp x) < 1" unfolding divide_less_eq_1_pos [OF pos] by (rule gt)
  moreover have "0 < 1 / (1 + exp x)" using pos by (rule divide_pos_pos [OF zero_less_one])
  ultimately show ?thesis by simp
qed

lemma P_final_range: "P_final ws (Some p) = Some v \<Longrightarrow> 0 < v \<and> v < 1"
  using sigmoid_bounds [of "- k_sigmoid ws * (p - P0 ws)"]
  by (auto simp: P_final_def)

lemma sigmoid_strict_mono:
  fixes x y :: real
  assumes "x < y"
  shows "1 / (1 + exp (- 4 * (x - 1 / 2))) < 1 / (1 + exp (- 4 * (y - 1 / 2)))"
proof -
  have "exp (- 4 * (y - 1 / 2)) < exp (- 4 * (x - 1 / 2))" using assms by simp
  moreover have "0 < 1 + exp (- 4 * (y - 1 / 2))" by (simp add: add_pos_pos)
  ultimately show ?thesis by (simp add: frac_less2 add_pos_pos)
qed

lemma burnout_formula_default:
  "P_final default_weights (P_prime default_weights (Some W) M S)
     = Some (1 / (1 + exp (- 4 * ((4 / 10 * W + 3 / 10 * M + 3 / 10 * S) - 1 / 2))))"
  by (simp add: P_final_def P_prime_def default_weights_def fadd_def fmul_def)

lemma burnout_formula_mono_W:
  "W1 < W2 \<Longrightarrow>
   \<exists>b1 b2. P_final default_weights (P_prime default_weights (Some W1) M S) = Some b1
      \<and> P_final default_weights (P_prime default_weights (Some W2) M S) = Some b2 \<and> b1 < b2"
  unfolding burnout_formula_default
  using sigmoid_strict_mono
    [of "4 / 10 * W1 + 3 / 10 * M + 3 / 10 * S" "4 / 10 * W2 + 3 / 10 * M + 3 / 10 * S"]
  by simp

lemma burnout_formula_mono_M:
  "M1 < M2 \<Longrightarrow>
   \<exists>b1 b2. P_final default_weights (P_prime default_weights (Some W) M1 S) = Some b1
      \<and> P_final default_weights (P_prime default_weights (Some W) M2 S) = Some b2 \<and> b1 < b2"
  unfolding burnout_formula_default
  using sigmoid_strict_mono
    [of "4 / 10 * W + 3 / 10 * M1 + 3 / 10 * S" "4 / 10 * W + 3 / 10 * M2 + 3 / 10 * S"]
  by simp

lemma burnout_formula_mono_S:
  "S1 < S2 \<Longrightarrow>
   \<exists>b1 b2. P_final default_weights (P_prime default_weights (Some W) M S1) = Some b1
      \<and> P_final default_weights (P_prime default_weights (Some W) M S2) = Some b2 \<and> b1 < b2"
  unfolding burnout_formula_default
  using sigmoid_strict_mono
    [of "4 / 10 * W + 3 / 10 * M + 3 / 10 * S1" "4 / 10 * W + 3 / 10 * M + 3 / 10 * S2"]
  by simp

subsection \<open>Burnout of a catalog subject\<close>

text \<open>
  Claim C1: for a subject code present in the catalog, \<^verbatim>\<open>calculate_burnout\<close> returns the
  sigmoid of the weighted factor sum, a value in [0,1]. The formula is as claimed
  (\<open>P_final_range\<close>), but the call never reaches it: \<^verbatim>\<open>workload_factor\<close> indexes the
  subject code string by \<^verbatim>\<open>'hours_per_week'\<close> and raises. Here the call is evaluated
  on a catalog of one ordinary subject.
\<close>

theorem calculate_burnout_catalog_subject_raises:
  "calculate_burnout example_student ''CS5002''
     [example_subject ''CS5002'' ''Data Science'' 10] no_requirements [] no_outcomes None None = Inl TypeError"
  by (rule calculate_burnout_present) (simp add: example_subject_def)

text \<open>
  Claim C2: for a subject code absent from the catalog, \<^verbatim>\<open>calculate_burnout\<close> raises
  (the lookup gives \<^verbatim>\<open>None\<close>, and \<^verbatim>\<open>None.iloc\<close> is an AttributeError); the error is
  the result of the call, whatever the profile, tables, maxima and weights: no burnout
  value is returned. Its caller \<^verbatim>\<open>calculate_utility\<close> does not catch the error either.
\<close>

theorem calculate_burnout_missing_subject_raises:
  assumes "code \<notin> subject_code ` set subjects_df"
  shows "calculate_burnout sd code subjects_df requirements_df prereqs_df outcomes_df mv ws
           = Inl AttributeError
    \<and> calculate_utility sd code subjects_df requirements_df prereqs_df outcomes_df uw
           = Inl AttributeError"
proof
  show "calculate_burnout sd code subjects_df requirements_df prereqs_df outcomes_df mv ws
           = Inl AttributeError"
    using assms by (rule calculate_burnout_absent)
  show "calculate_utility sd code subjects_df requirements_df prereqs_df outcomes_df uw
           = Inl AttributeError"
    unfolding calculate_utility_def Let_def
    by (simp only: calculate_burnout_absent [OF assms] ebind_def sum.case)
qed

theorem calculate_burnout_missing_subject_raises_witness:
  "''CS9999'' \<notin> subject_code ` set [example_subject ''CS5002'' ''Data Science'' 10]
   \<and> calculate_burnout example_student ''CS9999''
        [example_subject ''CS5002'' ''Data Science'' 10] no_requirements [] no_outcomes None None = Inl AttributeError
   \<and> calculate_utility example_student ''CS9999''
        [example_subject ''CS5002'' ''Data Science'' 10] no_requirements [] no_outcomes None = Inl AttributeError"
proof -
  have h: "''CS9999'' \<notin> subject_code ` set [example_subject ''CS5002'' ''Data Science'' 10]"
    by (simp add: example_subject_def)
  show ?thesis
    using h calculate_burnout_missing_subject_raises
                [OF h, of example_student no_requirements "[]" no_outcomes None None None]
    by simp
qed

subsection \<open>Normalization maxima\<close>

lemma map_filter_id_Nil: "List.map_filter id xs = [] \<longleftrightarrow> (\<forall>x \<in> set xs. x = None)"
  by (auto simp: List.map_filter_def filter_empty_conv)

lemma series_max_None_iff: "series_max xs = None \<longleftrightarrow> (\<forall>x \<in> set xs. x = None)"
  unfolding map_filter_id_Nil [symmetric]
  by (cases "List.map_filter id xs") (simp_all add: series_max_def)

lemma py_max_floor:
  "series_max xs = Some m \<Longrightarrow>
   \<exists>v. py_max (series_max xs) (Some 1) = Some v \<and> 1 \<le> v \<and> m \<le> v"
  by (auto simp: py_max_def fgt_def)

lemma py_max_nan: "series_max xs = None \<Longrightarrow> py_max (series_max xs) (Some 1) = None"
  by (auto simp: py_max_def fgt_def)

text \<open>
  The floor at 1 holds for a column with one value that is not missing, and fails for a
  column that is missing throughout (and for the empty catalog): \<^verbatim>\<open>Series.max()\<close> is
  NaN there, and \<^verbatim>\<open>max(nan, 1)\<close> is NaN, since \<^verbatim>\<open>1 > nan\<close> is false.
\<close>

lemma Hmax_floor:
  "\<exists>r \<in> set df. hours_per_week r \<noteq> None \<Longrightarrow>
   \<exists>v. Hmax (precalculate_max_values df) = Some v \<and> 1 \<le> v"
proof -
  assume "\<exists>r \<in> set df. hours_per_week r \<noteq> None"
  then have "series_max (map hours_per_week df) \<noteq> None"
    by (auto simp: series_max_None_iff)
  then obtain m where "series_max (map hours_per_week df) = Some m" by auto
  from py_max_floor [OF this] show ?thesis by (auto simp: precalculate_max_values_def)
qed

text \<open>
  Claim C3: each of the four maxima is at least 1 for every catalog, also one whose
  derived quantities are all 0 or missing. On a catalog whose numeric cells are missing
  the four maxima are NaN.
\<close>

theorem precalculate_max_values_missing_columns:
  "precalculate_max_values [blank_subject ''CS5001'']
     = \<lparr> Hmax = None, Amax = None, Pmax = None, Emax = None \<rparr>"
  by (simp add: precalculate_max_values_def blank_subject_def series_max_def py_max_def fgt_def
      fmul_def fsub_def List.map_filter_def)

subsection \<open>Prerequisite mismatch\<close>

text \<open>
  With a requirements table that has its columns, a subject without requirement rows
  has T = 0 and mismatch factor 0.
\<close>

lemma mismatch_factor_with_columns:
  "filter (\<lambda>r. req_subject_code r = code) rows = [] \<Longrightarrow>
   calculate_prerequisite_mismatch_factor sd code (Rows rows) prereqs_df = Inr 0"
  by (simp add: calculate_prerequisite_mismatch_factor_def)

lemma mismatch_factor_example:
  "calculate_prerequisite_mismatch_factor example_student ''CS5002'' python_requirement []
     = Inr 0"
  "calculate_prerequisite_mismatch_factor example_student ''CS5100'' python_requirement []
     = Inr (1 / 3)"
  by (simp_all add: calculate_prerequisite_mismatch_factor_def mismatch_of_def proficiency_def
      example_student_def python_requirement_def data_frame_def)

text \<open>
  Claim C8: for a subject with no requirements (T = 0) the prerequisite mismatch factor
  is exactly 0, whatever the student. When no subject of the catalog names a requirement,
  \<^verbatim>\<open>load_subject_data\<close> builds the requirements table from the empty list; it has no
  \<^verbatim>\<open>subject_code\<close> column, and line 51 raises before T is tested.
\<close>

theorem mismatch_factor_no_requirements_raises:
  "calculate_prerequisite_mismatch_factor example_student ''CS5002'' no_requirements []
     = Inl KeyError"
  by (simp add: calculate_prerequisite_mismatch_factor_def no_requirements_def data_frame_def)

subsection \<open>Repeated evaluation\<close>

text \<open>
  \<^verbatim>\<open>calculate_burnout\<close> standardizes the profile and fills in the default maxima and
  weights on every call; on the values, doing so again changes nothing.
\<close>

lemma standardize_idem:
  "standardize_student_data (standardize_student_data sd True) True = standardize_student_data sd True"
  by (cases "completed_courses sd"; cases "desired_outcomes sd")
     (simp_all add: standardize_student_data_def)

lemma calculate_burnout_standardized:
  "calculate_burnout (standardize_student_data sd True) code df rq pq oc mv ws
     = calculate_burnout sd code df rq pq oc mv ws"
  unfolding calculate_burnout_def standardize_idem by (rule refl)

lemma calculate_burnout_defaults:
  "calculate_burnout sd code df rq pq oc
      (Some (case mv of None \<Rightarrow> precalculate_max_values df | Some m \<Rightarrow> m))
      (Some (case ws of None \<Rightarrow> default_weights | Some w \<Rightarrow> w))
     = calculate_burnout sd code df rq pq oc mv ws"
  unfolding calculate_burnout_def option.case by (rule refl)

lemma calculate_burnout_raises:
  "calculate_burnout sd code df rq pq oc mv ws = Inl TypeError
   \<or> calculate_burnout sd code df rq pq oc mv ws = Inl AttributeError"
proof (cases "code \<in> subject_code ` set df")
  case True
  then show ?thesis by (simp add: calculate_burnout_present)
next
  case False
  then show ?thesis by (simp add: calculate_burnout_absent)
qed

lemma calculate_utility_raises:
  "code \<in> subject_code ` set df \<Longrightarrow> calculate_utility sd code df rq pq oc uw = Inl TypeError"
  unfolding calculate_utility_def Let_def
  by (simp only: calculate_burnout_present ebind_def sum.case)

lemma example_in_catalog:
  "''CS5001'' \<in> subject_code ` set example_catalog"
  "''CS5100'' \<in> subject_code ` set example_catalog"
  "''CS5002'' \<in> subject_code ` set example_catalog"
  by (simp_all add: example_catalog_def example_subject_def)

text \<open>
  On the store, every step of the three functions either adds a new object or writes
  into the dictionary the function itself has just created (\<^verbatim>\<open>result\<close>, the
  dictionary of the comprehension). So the store after a call extends the store before
  it, and the objects that were there are unchanged.
\<close>

lemma extends_refl: "extends h h"
  by (simp add: extends_def)

lemma deref_extends: "extends h h' \<Longrightarrow> a < length h \<Longrightarrow> deref h' a = deref h a"
proof -
  assume e: "extends h h'" and a: "a < length h"
  then have "take (length h) h' ! a = h ! a" by (simp add: extends_def)
  then have "h' ! a = h ! a" using a by simp
  with e a show ?thesis by (simp add: deref_def extends_def)
qed

lemma is_dict_extends: "extends h h' \<Longrightarrow> a < length h \<Longrightarrow> is_dict h' a = is_dict h a"
  by (simp add: is_dict_def deref_extends)

lemma extends_alloc: "extends h0 h \<Longrightarrow> extends h0 (snd (alloc ob h))"
  by (simp add: extends_def alloc_def)

lemma is_dict_alloc: "is_dict h b \<Longrightarrow> is_dict (snd (alloc ob h)) b"
  by (auto simp: is_dict_def deref_def alloc_def nth_append split: if_splits)

lemma is_dict_alloc_new: "is_dict (snd (alloc (ODict items) h)) (length h)"
  by (simp add: is_dict_def deref_def alloc_def)

lemma length_set_item: "length (set_item a k v h) = length h"
  by (simp add: set_item_def split: option.splits pyobj.splits)

lemma extends_set_item:
  "extends h0 h \<Longrightarrow> length h0 \<le> a \<Longrightarrow> extends h0 (set_item a k v h)"
  by (simp add: extends_def set_item_def split: option.splits pyobj.splits)

lemma is_dict_set_item: "is_dict h b \<Longrightarrow> is_dict (set_item a k v h) b"
  by (auto simp: is_dict_def deref_def set_item_def nth_list_update
      split: option.splits pyobj.splits if_splits)

lemma courses_loop_props:
  "extends h0 h \<Longrightarrow> length h0 \<le> d \<Longrightarrow> extends h0 (courses_loop d cs h)"
proof (induction cs arbitrary: h)
  case Nil
  then show ?case by simp
next
  case (Cons c cs)
  have "extends h0 (set_item d c (VRef (length h)) (h @ [ODict []]))"
    using Cons.prems extends_alloc [of h0 h "ODict []"]
    by (intro extends_set_item) (simp_all add: alloc_def)
  from Cons.IH [OF this Cons.prems(2)] show ?case by (simp add: alloc_def)
qed

lemma is_dict_courses_loop: "is_dict h b \<Longrightarrow> is_dict (courses_loop d cs h) b"
proof (induction cs arbitrary: h)
  case Nil
  then show ?case by simp
next
  case (Cons c cs)
  have "is_dict (set_item d c (VRef (length h)) (h @ [ODict []])) b"
    using Cons.prems is_dict_alloc [of h b "ODict []"]
    by (intro is_dict_set_item) (simp add: alloc_def)
  from Cons.IH [OF this] show ?case by (simp add: alloc_def)
qed

lemma extends_dict_of_courses: "extends h0 h \<Longrightarrow> extends h0 (snd (dict_of_courses xs h))"
proof -
  assume e: "extends h0 h"
  then have "extends h0 (h @ [ODict []])" using extends_alloc [of h0 h "ODict []"]
    by (simp add: alloc_def)
  moreover have "length h0 \<le> length h" using e by (simp add: extends_def)
  ultimately show ?thesis
    by (simp add: dict_of_courses_def alloc_def courses_loop_props)
qed

lemma is_dict_dict_of_courses: "is_dict h b \<Longrightarrow> is_dict (snd (dict_of_courses xs h)) b"
  using is_dict_alloc [of h b "ODict []"]
  by (simp add: dict_of_courses_def alloc_def is_dict_courses_loop)

lemma extends_set_of_courses: "extends h0 h \<Longrightarrow> extends h0 (snd (set_of_courses xs h))"
  using extends_alloc [of h0 h "OSet (remdups xs)"] by (simp add: set_of_courses_def alloc_def)

lemma is_dict_set_of_courses: "is_dict h b \<Longrightarrow> is_dict (snd (set_of_courses xs h)) b"
  using is_dict_alloc [of h b "OSet (remdups xs)"] by (simp add: set_of_courses_def alloc_def)

lemma extends_convert_completed:
  "extends h0 h \<Longrightarrow> extends h0 (snd (convert_completed fb cc h))"
  by (simp add: convert_completed_def extends_dict_of_courses extends_set_of_courses
      split: pyitem.splits option.splits pyobj.splits)

lemma is_dict_convert_completed:
  "is_dict h b \<Longrightarrow> is_dict (snd (convert_completed fb cc h)) b"
  by (simp add: convert_completed_def is_dict_dict_of_courses is_dict_set_of_courses
      split: pyitem.splits option.splits pyobj.splits)

lemma extends_get_or_new_dict:
  "extends h0 h \<Longrightarrow> extends h0 (snd (get_or_new_dict items k h))"
  using extends_alloc [of h0 h "ODict []"] by (simp add: get_or_new_dict_def alloc_def)

lemma is_dict_get_or_new_dict:
  "is_dict h b \<Longrightarrow> is_dict (snd (get_or_new_dict items k h)) b"
  using is_dict_alloc [of h b "ODict []"] by (simp add: get_or_new_dict_def alloc_def)

lemma extends_copy_if_present:
  "extends h0 h \<Longrightarrow> length h0 \<le> r \<Longrightarrow> extends h0 (copy_if_present items r k h)"
  by (simp add: copy_if_present_def extends_set_item split: option.splits)

lemma is_dict_copy_if_present:
  "is_dict h b \<Longrightarrow> is_dict (copy_if_present items r k h) b"
  by (simp add: copy_if_present_def is_dict_set_item split: option.splits)

lemma standardize_st_not_dict:
  "\<not> is_dict h sd \<Longrightarrow> standardize_student_data_st sd fb h = (Inl AttributeError, h)"
  by (simp add: standardize_student_data_st_def is_dict_def split: option.splits pyobj.splits)

lemma standardize_st_fst:
  "fst (standardize_student_data_st sd fb h)
     = (if is_dict h sd then Inr (length h) else Inl AttributeError)"
  by (simp add: standardize_student_data_st_def is_dict_def alloc_def Let_def
      split: option.splits pyobj.splits prod.splits)

lemma extends_standardize_st:
  assumes "extends h0 h"
  shows "extends h0 (snd (standardize_student_data_st sd fb h))"
proof (cases "deref h sd")
  case None
  with assms show ?thesis by (simp add: standardize_student_data_st_def)
next
  case (Some ob)
  show ?thesis
  proof (cases ob)
    case (ODict student)
    have r: "length h0 \<le> length h" using assms by (simp add: extends_def)
    let ?h1 = "snd (alloc (ODict [(''NUid'', get_or student ''NUid'' (VStr [])),
                 (''desired_outcomes'', get_or student ''desired_outcomes'' (VStr [])),
                 (''core_subjects'', get_or student ''core_subjects'' (VStr []))]) h)"
    have e1: "extends h0 ?h1" using assms by (rule extends_alloc)
    let ?p2 = "get_or_new_dict student ''programming_experience'' ?h1"
    have e2: "extends h0 (snd ?p2)" using e1 by (rule extends_get_or_new_dict)
    let ?h3 = "set_item (length h) ''programming_experience'' (fst ?p2) (snd ?p2)"
    have e3: "extends h0 ?h3" using e2 r by (rule extends_set_item)
    let ?p4 = "get_or_new_dict student ''math_experience'' ?h3"
    have e4: "extends h0 (snd ?p4)" using e3 by (rule extends_get_or_new_dict)
    let ?h5 = "set_item (length h) ''math_experience'' (fst ?p4) (snd ?p4)"
    have e5: "extends h0 ?h5" using e4 r by (rule extends_set_item)
    let ?p6 = "get_or_new_dict student ''completed_courses'' ?h5"
    have e6: "extends h0 (snd ?p6)" using e5 by (rule extends_get_or_new_dict)
    let ?p7 = "convert_completed fb (fst ?p6) (snd ?p6)"
    have e7: "extends h0 (snd ?p7)" using e6 by (rule extends_convert_completed)
    let ?h8 = "set_item (length h) ''completed_courses'' (fst ?p7) (snd ?p7)"
    have e8: "extends h0 ?h8" using e7 r by (rule extends_set_item)
    let ?h9 = "copy_if_present student (length h) ''interests'' ?h8"
    have e9: "extends h0 ?h9" using e8 r by (rule extends_copy_if_present)
    let ?h10 = "copy_if_present student (length h) ''semester'' ?h9"
    have e10: "extends h0 ?h10" using e9 r by (rule extends_copy_if_present)
    have "snd (standardize_student_data_st sd fb h) = ?h10"
      using Some ODict
      by (simp add: standardize_student_data_st_def alloc_def Let_def split: prod.splits)
    with e10 show ?thesis by simp
  next
    case (OList xs)
    with Some assms show ?thesis by (simp add: standardize_student_data_st_def)
  next
    case (OSet xs)
    with Some assms show ?thesis by (simp add: standardize_student_data_st_def)
  qed
qed

lemma is_dict_standardize_st_chain:
  assumes d: "deref h sd = Some (ODict student)"
    and a: "is_dict (snd (alloc (ODict [(''NUid'', get_or student ''NUid'' (VStr [])),
                 (''desired_outcomes'', get_or student ''desired_outcomes'' (VStr [])),
                 (''core_subjects'', get_or student ''core_subjects'' (VStr []))]) h)) b"
  shows "is_dict (snd (standardize_student_data_st sd fb h)) b"
proof -
  let ?h1 = "snd (alloc (ODict [(''NUid'', get_or student ''NUid'' (VStr [])),
               (''desired_outcomes'', get_or student ''desired_outcomes'' (VStr [])),
               (''core_subjects'', get_or student ''core_subjects'' (VStr []))]) h)"
  let ?p2 = "get_or_new_dict student ''programming_experience'' ?h1"
  have e2: "is_dict (snd ?p2) b" using a by (rule is_dict_get_or_new_dict)
  let ?h3 = "set_item (length h) ''programming_experience'' (fst ?p2) (snd ?p2)"
  have e3: "is_dict ?h3 b" using e2 by (rule is_dict_set_item)
  let ?p4 = "get_or_new_dict student ''math_experience'' ?h3"
  have e4: "is_dict (snd ?p4) b" using e3 by (rule is_dict_get_or_new_dict)
  let ?h5 = "set_item (length h) ''math_experience'' (fst ?p4) (snd ?p4)"
  have e5: "is_dict ?h5 b" using e4 by (rule is_dict_set_item)
  let ?p6 = "get_or_new_dict student ''completed_courses'' ?h5"
  have e6: "is_dict (snd ?p6) b" using e5 by (rule is_dict_get_or_new_dict)
  let ?p7 = "convert_completed fb (fst ?p6) (snd ?p6)"
  have e7: "is_dict (snd ?p7) b" using e6 by (rule is_dict_convert_completed)
  let ?h8 = "set_item (length h) ''completed_courses'' (fst ?p7) (snd ?p7)"
  have e8: "is_dict ?h8 b" using e7 by (rule is_dict_set_item)
  let ?h9 = "copy_if_present student (length h) ''interests'' ?h8"
  have e9: "is_dict ?h9 b" using e8 by (rule is_dict_copy_if_present)
  let ?h10 = "copy_if_present student (length h) ''semester'' ?h9"
  have e10: "is_dict ?h10 b" using e9 by (rule is_dict_copy_if_present)
  have "snd (standardize_student_data_st sd fb h) = ?h10"
    using d by (simp add: standardize_student_data_st_def alloc_def Let_def split: prod.splits)
  with e10 show ?thesis by simp
qed

lemma is_dict_cases:
  "is_dict h a \<Longrightarrow> \<exists>items. deref h a = Some (ODict items)"
  by (auto simp: is_dict_def split: option.splits pyobj.splits)

lemma is_dict_less: "is_dict h a \<Longrightarrow> a < length h"
  by (auto simp: is_dict_def deref_def split: if_splits)

lemma is_dict_standardize_st:
  assumes "is_dict h b"
  shows "is_dict (snd (standardize_student_data_st sd fb h)) b"
proof (cases "is_dict h sd")
  case True
  then obtain student where d: "deref h sd = Some (ODict student)"
    using is_dict_cases by blast
  show ?thesis using d is_dict_alloc [OF assms] by (rule is_dict_standardize_st_chain)
next
  case False
  with assms show ?thesis by (simp add: standardize_st_not_dict)
qed

lemma standardize_st_result_is_dict:
  assumes "is_dict h sd"
  shows "is_dict (snd (standardize_student_data_st sd fb h)) (length h)"
proof -
  from assms obtain student where d: "deref h sd = Some (ODict student)"
    using is_dict_cases by blast
  show ?thesis using d is_dict_alloc_new by (rule is_dict_standardize_st_chain)
qed

lemma workload_factor_raises:
  "workload_factor code df mv
     = (if code \<in> subject_code ` set df then Inl TypeError else Inl AttributeError)"
  by (simp add: get_subject_cases workload_factor_present workload_factor_absent)

lemma extends_default_weights_st: "extends h0 h \<Longrightarrow> extends h0 (snd (default_weights_st ws h))"
  by (cases ws) (simp_all add: default_weights_st_def extends_alloc)

lemma extends_default_max_values_st:
  "extends h0 h \<Longrightarrow> extends h0 (snd (default_max_values_st mv df h))"
  by (cases mv) (simp_all add: default_max_values_st_def extends_alloc)

lemma extends_default_utility_weights_st:
  "extends h0 h \<Longrightarrow> extends h0 (snd (default_utility_weights_st uw h))"
  by (cases uw) (simp_all add: default_utility_weights_st_def extends_alloc)

lemma calculate_burnout_st_fst:
  assumes "sd < length h"
  shows "fst (calculate_burnout_st sd code df rq pq oc mv ws h)
     = (if is_dict h sd
        then (if code \<in> subject_code ` set df then Inl TypeError else Inl AttributeError)
        else Inl AttributeError)"
proof -
  define h1 where "h1 = snd (default_weights_st ws h)"
  have "extends h h1" unfolding h1_def using extends_refl by (rule extends_default_weights_st)
  then have d: "is_dict h1 sd = is_dict h sd" using assms by (rule is_dict_extends)
  have "fst (calculate_burnout_st sd code df rq pq oc mv ws h)
      = (case fst (standardize_student_data_st sd True h1) of
           Inl e \<Rightarrow> Inl e
         | Inr sd1 \<Rightarrow>
             (if code \<in> subject_code ` set df then Inl TypeError else Inl AttributeError))"
    by (simp add: calculate_burnout_st_def case_prod_beta Let_def h1_def workload_factor_raises
        ebind_def split: sum.splits)
  then show ?thesis by (simp add: standardize_st_fst d)
qed

lemma extends_calculate_burnout_st:
  assumes "extends h0 h"
  shows "extends h0 (snd (calculate_burnout_st sd code df rq pq oc mv ws h))"
proof -
  define h1 where "h1 = snd (default_weights_st ws h)"
  define h2 where "h2 = snd (standardize_student_data_st sd True h1)"
  define h3 where "h3 = snd (default_max_values_st mv df h2)"
  have e1: "extends h0 h1" unfolding h1_def using assms by (rule extends_default_weights_st)
  have e2: "extends h0 h2" unfolding h2_def using e1 by (rule extends_standardize_st)
  have e3: "extends h0 h3" unfolding h3_def using e2 by (rule extends_default_max_values_st)
  have "snd (calculate_burnout_st sd code df rq pq oc mv ws h) = h2
      \<or> snd (calculate_burnout_st sd code df rq pq oc mv ws h) = h3"
    by (simp add: calculate_burnout_st_def case_prod_beta Let_def h1_def h2_def h3_def
        split: sum.splits)
  with e2 e3 show ?thesis by auto
qed

lemma calculate_utility_st_fst:
  assumes "sd < length h"
  shows "fst (calculate_utility_st sd code df rq pq oc uw h)
     = (if is_dict h sd
        then (if code \<in> subject_code ` set df then Inl TypeError else Inl AttributeError)
        else Inl AttributeError)"
proof -
  define h1 where "h1 = snd (default_utility_weights_st uw h)"
  define h2 where "h2 = snd (standardize_student_data_st sd True h1)"
  have "extends h h1"
    unfolding h1_def using extends_refl by (rule extends_default_utility_weights_st)
  then have d: "is_dict h1 sd = is_dict h sd" using assms by (rule is_dict_extends)
  have u: "fst (calculate_utility_st sd code df rq pq oc uw h)
      = (case fst (standardize_student_data_st sd True h1) of
           Inl e \<Rightarrow> Inl e
         | Inr bsd \<Rightarrow>
             (case fst (calculate_burnout_st bsd code df rq pq oc None None h2) of
                Inl e \<Rightarrow> Inl e
              | Inr burnout_prob \<Rightarrow>
                  fst (calculate_utility_st sd code df rq pq oc uw h)))"
    by (simp add: calculate_utility_st_def case_prod_beta Let_def h1_def h2_def ebind_def
        split: sum.splits)
  show ?thesis
  proof (cases "is_dict h sd")
    case True
    then have "is_dict h1 sd" by (simp only: d)
    then have r: "is_dict h2 (length h1)"
      unfolding h2_def by (rule standardize_st_result_is_dict)
    then have "length h1 < length h2" by (rule is_dict_less)
    from calculate_burnout_st_fst [OF this, of code df rq pq oc None None] r
    have b: "fst (calculate_burnout_st (length h1) code df rq pq oc None None h2)
        = (if code \<in> subject_code ` set df then Inl TypeError else Inl AttributeError)"
      by simp
    have s: "fst (standardize_student_data_st sd True h1) = Inr (length h1)"
      using True by (simp add: standardize_st_fst d)
    show ?thesis using True by (subst u) (simp add: s b)
  next
    case False
    then have s: "fst (standardize_student_data_st sd True h1) = Inl AttributeError"
      by (simp add: standardize_st_fst d)
    show ?thesis using False by (subst u) (simp add: s)
  qed
qed

lemma extends_calculate_utility_st:
  assumes "extends h0 h"
  shows "extends h0 (snd (calculate_utility_st sd code df rq pq oc uw h))"
proof -
  define h1 where "h1 = snd (default_utility_weights_st uw h)"
  define h2 where "h2 = snd (standardize_student_data_st sd True h1)"
  have e1: "extends h0 h1"
    unfolding h1_def using assms by (rule extends_default_utility_weights_st)
  have e2: "extends h0 h2" unfolding h2_def using e1 by (rule extends_standardize_st)
  have e3: "\<And>bsd. extends h0 (snd (calculate_burnout_st bsd code df rq pq oc None None h2))"
    using e2 by (rule extends_calculate_burnout_st)
  have "snd (calculate_utility_st sd code df rq pq oc uw h) = h2
      \<or> (\<exists>bsd. snd (calculate_utility_st sd code df rq pq oc uw h)
                 = snd (calculate_burnout_st bsd code df rq pq oc None None h2))"
    by (auto simp: calculate_utility_st_def case_prod_beta Let_def h1_def h2_def
        split: sum.splits)
  with e2 e3 show ?thesis by auto
qed

lemma read_student_is_dict: "read_student h a = Inr student \<Longrightarrow> is_dict h a"
  by (auto simp: read_student_def is_dict_def split: option.splits pyobj.splits)

lemma calculate_utility_absent:
  assumes "code \<notin> subject_code ` set df"
  shows "calculate_utility sd code df rq pq oc uw = Inl AttributeError"
  unfolding calculate_utility_def Let_def
  by (simp only: calculate_burnout_absent [OF assms] ebind_def sum.case)

lemma calculate_utility_raises_cases:
  "calculate_utility sd code df rq pq oc uw
     = (if code \<in> subject_code ` set df then Inl TypeError else Inl AttributeError)"
  by (simp add: calculate_utility_raises calculate_utility_absent)

lemma calculate_burnout_raises_cases:
  "calculate_burnout sd code df rq pq oc mv ws
     = (if code \<in> subject_code ` set df then Inl TypeError else Inl AttributeError)"
  by (simp add: calculate_burnout_present calculate_burnout_absent)

lemma later_store_same_result:
  assumes "extends h h'" and "sd < length h"
  shows "fst (calculate_burnout_st sd code df rq pq oc mv ws h')
           = fst (calculate_burnout_st sd code df rq pq oc mv ws h)"
    and "fst (calculate_utility_st sd code df rq pq oc uw h')
           = fst (calculate_utility_st sd code df rq pq oc uw h)"
proof -
  have l: "sd < length h'" using assms by (simp add: extends_def)
  have d: "is_dict h' sd = is_dict h sd" using assms by (rule is_dict_extends)
  show "fst (calculate_burnout_st sd code df rq pq oc mv ws h')
           = fst (calculate_burnout_st sd code df rq pq oc mv ws h)"
    by (simp only: calculate_burnout_st_fst [OF l] calculate_burnout_st_fst [OF assms(2)] d)
  show "fst (calculate_utility_st sd code df rq pq oc uw h')
           = fst (calculate_utility_st sd code df rq pq oc uw h)"
    by (simp only: calculate_utility_st_fst [OF l] calculate_utility_st_fst [OF assms(2)] d)
qed

text \<open>
  The property is not empty: an assignment into the caller's profile, such as
  \<^verbatim>\<open>student_data['interests'] = ..\<close>, gives a store that does not extend the old one.
\<close>

lemma write_into_profile_is_seen:
  "\<not> extends example_store (set_item 0 ''interests'' (VStr ''ai'') example_store)"
  by code_simp

lemma example_store_profile: "read_student example_store 0 = Inr example_student"
  by code_simp

lemma example_store_standardized:
  "fst (standardize_student_data_st 0 True example_store) = Inr 4"
  "length (snd (standardize_student_data_st 0 True example_store)) = 10"
  "read_student (snd (standardize_student_data_st 0 True example_store)) 4
     = Inr (standardize_student_data example_student True)"
  by code_simp+

text \<open>
  Claim C9: evaluating \<^verbatim>\<open>calculate_burnout\<close> twice on the same student, subject code,
  tables, maxima and weights gives the same result, and so does evaluating
  \<^verbatim>\<open>calculate_utility\<close> twice: no state drifts between the calls. On the store, with
  the profile an object of it: the second evaluation, run on the store the first one
  leaves, gives the result of the first; each call leaves every object that existed
  before it unchanged; the result is the same on any later store that still holds those
  objects unchanged; and it is the result of the function of the profile's contents.
\<close>

theorem repeated_evaluation_no_drift:
  assumes "sd < length h"
  shows "fst (calculate_burnout_st sd code df rq pq oc mv ws
                (snd (calculate_burnout_st sd code df rq pq oc mv ws h)))
           = fst (calculate_burnout_st sd code df rq pq oc mv ws h)
    \<and> take (length h) (snd (calculate_burnout_st sd code df rq pq oc mv ws h)) = h
    \<and> fst (calculate_utility_st sd code df rq pq oc uw
                (snd (calculate_utility_st sd code df rq pq oc uw h)))
           = fst (calculate_utility_st sd code df rq pq oc uw h)
    \<and> take (length h) (snd (calculate_utility_st sd code df rq pq oc uw h)) = h
    \<and> (\<forall>h'. extends h h' \<longrightarrow>
          fst (calculate_burnout_st sd code df rq pq oc mv ws h')
            = fst (calculate_burnout_st sd code df rq pq oc mv ws h)
          \<and> fst (calculate_utility_st sd code df rq pq oc uw h')
            = fst (calculate_utility_st sd code df rq pq oc uw h))
    \<and> (\<forall>student. read_student h sd = Inr student \<longrightarrow>
          fst (calculate_burnout_st sd code df rq pq oc mv ws h)
            = calculate_burnout student code df rq pq oc mv ws
          \<and> fst (calculate_utility_st sd code df rq pq oc uw h)
            = calculate_utility student code df rq pq oc uw)"
proof (intro conjI allI impI)
  have eb: "extends h (snd (calculate_burnout_st sd code df rq pq oc mv ws h))"
    using extends_refl by (rule extends_calculate_burnout_st)
  have eu: "extends h (snd (calculate_utility_st sd code df rq pq oc uw h))"
    using extends_refl by (rule extends_calculate_utility_st)
  show "fst (calculate_burnout_st sd code df rq pq oc mv ws
                (snd (calculate_burnout_st sd code df rq pq oc mv ws h)))
           = fst (calculate_burnout_st sd code df rq pq oc mv ws h)"
    using eb assms by (rule later_store_same_result(1))
  show "take (length h) (snd (calculate_burnout_st sd code df rq pq oc mv ws h)) = h"
    using eb by (simp add: extends_def)
  show "fst (calculate_utility_st sd code df rq pq oc uw
                (snd (calculate_utility_st sd code df rq pq oc uw h)))
           = fst (calculate_utility_st sd code df rq pq oc uw h)"
    using eu assms by (rule later_store_same_result(2))
  show "take (length h) (snd (calculate_utility_st sd code df rq pq oc uw h)) = h"
    using eu by (simp add: extends_def)
next
  fix h'
  assume "extends h h'"
  then show "fst (calculate_burnout_st sd code df rq pq oc mv ws h')
            = fst (calculate_burnout_st sd code df rq pq oc mv ws h)"
    using assms by (rule later_store_same_result(1))
next
  fix h'
  assume "extends h h'"
  then show "fst (calculate_utility_st sd code df rq pq oc uw h')
            = fst (calculate_utility_st sd code df rq pq oc uw h)"
    using assms by (rule later_store_same_result(2))
next
  fix student
  assume "read_student h sd = Inr student"
  then have "is_dict h sd" by (rule read_student_is_dict)
  then show "fst (calculate_burnout_st sd code df rq pq oc mv ws h)
            = calculate_burnout student code df rq pq oc mv ws"
    by (simp add: calculate_burnout_st_fst [OF assms] calculate_burnout_raises_cases)
next
  fix student
  assume "read_student h sd = Inr student"
  then have "is_dict h sd" by (rule read_student_is_dict)
  then show "fst (calculate_utility_st sd code df rq pq oc uw h)
            = calculate_utility student code df rq pq oc uw"
    by (simp add: calculate_utility_st_fst [OF assms] calculate_utility_raises_cases)
qed

theorem repeated_evaluation_no_drift_witness:
  "0 < length example_store
   \<and> read_student example_store 0 = Inr example_student
   \<and> fst (calculate_burnout_st 0 ''CS5002'' example_catalog no_requirements example_prereqs
            no_outcomes None None example_store) = Inl TypeError
   \<and> fst (calculate_burnout_st 0 ''CS5002'' example_catalog no_requirements example_prereqs
            no_outcomes None None
            (snd (calculate_burnout_st 0 ''CS5002'' example_catalog no_requirements
                    example_prereqs no_outcomes None None example_store))) = Inl TypeError
   \<and> take 4 (snd (calculate_burnout_st 0 ''CS5002'' example_catalog no_requirements
                    example_prereqs no_outcomes None None example_store)) = example_store
   \<and> fst (calculate_utility_st 0 ''CS5002'' example_catalog no_requirements example_prereqs
            no_outcomes None example_store) = Inl TypeError
   \<and> take 4 (snd (calculate_utility_st 0 ''CS5002'' example_catalog no_requirements
                    example_prereqs no_outcomes None example_store)) = example_store"
proof -
  have l: "0 < length example_store" by (simp add: example_store_def)
  have n: "length example_store = 4" by (simp add: example_store_def)
  note t = repeated_evaluation_no_drift
             [OF l, of "''CS5002''" example_catalog no_requirements example_prereqs no_outcomes
                None None None]
  have b: "calculate_burnout example_student ''CS5002'' example_catalog no_requirements
             example_prereqs no_outcomes None None = Inl TypeError"
    by (rule calculate_burnout_present) (rule example_in_catalog)
  have u: "calculate_utility example_student ''CS5002'' example_catalog no_requirements
             example_prereqs no_outcomes None = Inl TypeError"
    by (rule calculate_utility_raises) (rule example_in_catalog)
  from t example_store_profile b u l n show ?thesis by simp
qed

subsection \<open>Utility and the prerequisite penalty\<close>

text \<open>The penalty of lines 64 to 70 is all or nothing.\<close>

lemma prereq_penalty_all_or_nothing:
  "prereq_penalty sd ps =
    (if ps \<noteq> [] \<and> (\<exists>p \<in> set ps. \<not> py_in p (completed_courses sd)) then 1 else 0)"
  by (auto simp: prereq_penalty_def Let_def list_all_iff)

lemma example_penalty:
  "prereq_penalty example_student
     (map prereq_subject_code (filter (\<lambda>p. pre_subject_code p = ''CS5002'') example_prereqs)) = 1"
  by (simp add: prereq_penalty_def example_prereqs_def example_student_def)

text \<open>
  Claim C7: the utility is alpha * OAS + beta * (1 - burnout) - delta * penalty, the
  penalty being 1 when a prerequisite is missing and 0 otherwise. The penalty rule is as
  claimed (\<open>prereq_penalty_all_or_nothing\<close>), but \<^verbatim>\<open>calculate_utility\<close> calls
  \<^verbatim>\<open>calculate_burnout\<close> first and so raises before any utility is computed. Here the
  student misses one of the two prerequisites of CS5002.
\<close>

theorem calculate_utility_catalog_subject_raises:
  "calculate_utility example_student ''CS5002'' example_catalog no_requirements example_prereqs no_outcomes None
     = Inl TypeError"
  by (rule calculate_utility_raises) (rule example_in_catalog)

text \<open>
  Claim C10: with the default weights the burnout probability grows strictly with each
  of W', M' and S'. The closing formula does (\<open>burnout_formula_mono_W\<close>,
  \<open>burnout_formula_mono_M\<close>, \<open>burnout_formula_mono_S\<close>), but no evaluation yields a
  burnout value to compare: CS5001 and CS5100 differ in their weekly hours only, and
  both calls raise.
\<close>

theorem calculate_burnout_two_subjects_raise:
  "calculate_burnout example_student ''CS5001'' example_catalog no_requirements [] no_outcomes None None = Inl TypeError
   \<and> calculate_burnout example_student ''CS5100'' example_catalog no_requirements [] no_outcomes None None = Inl TypeError"
  by (simp only: calculate_burnout_present example_in_catalog)

subsection \<open>Burnout scores of the catalog\<close>

text \<open>
  \<^verbatim>\<open>calculate_scores\<close> returns no table: the loop raises at the first subject that is
  not completed, and with every subject completed the empty frame has no column to sort.
\<close>

lemma scores_loop_rows:
  "scores_loop sd df rq pq oc mv codes = Inr rows \<Longrightarrow> rows = []"
proof (induction codes)
  case Nil
  then show ?case by simp
next
  case (Cons code rest)
  show ?case
  proof (cases "py_in code (completed_courses sd)")
    case True
    with Cons show ?thesis by simp
  next
    case False
    have "\<exists>e. calculate_burnout sd code df rq pq oc (Some mv) None = Inl e"
      using calculate_burnout_raises [of sd code df rq pq oc "Some mv" None] by auto
    then obtain e where "calculate_burnout sd code df rq pq oc (Some mv) None = Inl e" ..
    with False have "scores_loop sd df rq pq oc mv (code # rest) = Inl e"
      by (simp add: ebind_def)
    with Cons.prems show ?thesis by simp
  qed
qed

lemma calculate_scores_raises: "calculate_scores sd df oc pq rq \<noteq> Inr scores"
proof
  assume a: "calculate_scores sd df oc pq rq = Inr scores"
  then obtain rows where
    rows: "scores_loop sd df rq pq oc (precalculate_max_values df) (map subject_code df) = Inr rows"
    and ne: "rows \<noteq> []"
    by (auto simp: calculate_scores_def Let_def ebind_def split: sum.splits if_splits)
  from scores_loop_rows [OF rows] ne show False by simp
qed

lemma scores_loop_not_completed:
  "scores_loop sd df rq pq oc mv codes = Inr scores \<Longrightarrow>
   \<forall>r \<in> set scores. \<not> py_in (sr_subject_code r) (completed_courses sd)"
proof (induction codes arbitrary: scores)
  case Nil
  then show ?case by simp
next
  case (Cons code rest)
  show ?case
  proof (cases "py_in code (completed_courses sd)")
    case True
    with Cons show ?thesis by simp
  next
    case False
    with Cons.prems obtain b nm rows where
      rows: "scores_loop sd df rq pq oc mv rest = Inr rows"
      and sc: "scores = \<lparr> sr_subject_code = code, sr_subject_name = nm, burnout_score = round3 b,
                prerequisites = map prereq_subject_code (filter (\<lambda>p. pre_subject_code p = code) pq),
                sr_prerequisites_satisfied = prerequisites_satisfied code sd pq,
                utility = 0 \<rparr> # rows"
      by (auto simp: ebind_def split: sum.splits)
    from Cons.IH [OF rows] False sc show ?thesis by simp
  qed
qed

lemma calculate_scores_not_completed:
  "calculate_scores sd df oc pq rq = Inr scores \<Longrightarrow>
   \<forall>r \<in> set scores. \<not> py_in (sr_subject_code r) (completed_courses sd)"
proof -
  assume a: "calculate_scores sd df oc pq rq = Inr scores"
  then obtain rows where rows: "scores_loop sd df rq pq oc (precalculate_max_values df) (map subject_code df) = Inr rows"
    and s: "scores = sort_key burnout_key rows"
    by (auto simp: calculate_scores_def Let_def ebind_def split: sum.splits if_splits)
  from scores_loop_not_completed [OF rows] s show ?thesis by simp
qed

subsection \<open>Matching courses\<close>

lemma set_map_filter: "set (List.map_filter f xs) = {y. \<exists>x \<in> set xs. f x = Some y}"
  by (induction xs) (auto split: option.splits)

lemma set_sort_reverse: "set (sort_reverse f xs) = set xs"
  by (simp add: sort_reverse_def)

lemma sort_reverse_descending:
  assumes "i < j" and "j < length (sort_reverse f xs)"
  shows "f (sort_reverse f xs ! j) \<le> f (sort_reverse f xs ! i)"
proof -
  let ?S = "sort_key f (rev xs)"
  have j: "j < length ?S" using assms(2) by (simp add: sort_reverse_def)
  have i: "i < length ?S" using assms(1) j by simp
  have sorted: "sorted (map f ?S)" by (rule sorted_sort_key)
  have "length ?S - Suc j \<le> length ?S - Suc i" using assms(1) by simp
  moreover have "length ?S - Suc i < length (map f ?S)" using i by simp
  ultimately have "map f ?S ! (length ?S - Suc j) \<le> map f ?S ! (length ?S - Suc i)"
    using sorted by (rule_tac sorted_nth_mono)
  moreover have "length ?S - Suc j < length ?S" "length ?S - Suc i < length ?S"
    using i j by simp_all
  ultimately have "f (?S ! (length ?S - Suc j)) \<le> f (?S ! (length ?S - Suc i))" by simp
  then show ?thesis using i j by (simp add: sort_reverse_def rev_nth)
qed

lemma match_course_code:
  "match_course sd si pq bs c = Some x \<Longrightarrow>
   mc_subject_code x = subject_code c \<and> \<not> py_in (subject_code c) (completed_courses sd)"
  by (auto simp: match_course_def Let_def split: if_splits)

lemma match_course_core:
  "is_core_subject sd (subject_code c) \<Longrightarrow> \<not> py_in (subject_code c) (completed_courses sd) \<Longrightarrow>
   \<exists>x. match_course sd si pq bs c = Some x \<and> mc_subject_code x = subject_code c \<and> is_core x
     \<and> match_score x = fst (fst (course_score sd si pq bs c)) + 1 / 2
     \<and> CoreSubjectRequirement \<in> set (reasons x)"
  by (simp add: match_course_def Let_def)

lemma find_matching_courses_set:
  "set (find_matching_courses sd df oc pq cq bs)
     = {x. \<exists>c \<in> set df. match_course sd (student_interests_of sd) pq bs c = Some x}"
  by (simp add: find_matching_courses_def set_sort_reverse set_map_filter)

lemma find_matching_courses_not_completed:
  "x \<in> set (find_matching_courses sd df oc pq cq bs) \<Longrightarrow>
   \<not> py_in (mc_subject_code x) (completed_courses sd)"
  by (auto simp: find_matching_courses_set dest: match_course_code)

lemma find_matching_courses_core_first:
  assumes "i < j" and "j < length (find_matching_courses sd df oc pq cq bs)"
    and "is_core (find_matching_courses sd df oc pq cq bs ! j)"
  shows "is_core (find_matching_courses sd df oc pq cq bs ! i)"
proof -
  let ?out = "find_matching_courses sd df oc pq cq bs"
  have "ranking_key (?out ! j) \<le> ranking_key (?out ! i)"
    using assms(1,2) unfolding find_matching_courses_def by (rule sort_reverse_descending)
  then have "is_core (?out ! j) \<le> is_core (?out ! i)"
    by (auto simp: ranking_key_def less_eq_prod_def)
  with assms(3) show ?thesis by simp
qed

lemma completed_add_interests:
  "completed_courses (add_interests sd extra) = completed_courses sd"
  by (simp add: add_interests_def)

text \<open>The matcher on the example catalog, for the example student.\<close>

lemma example_matching:
  "find_matching_courses example_student example_catalog no_outcomes [] ([]::prereq list) None
     = [example_core_course, example_matched_course]"
  by code_simp

lemma example_recommendations:
  "generate_recommendations example_catalog no_outcomes [] ([]::prereq list) None (Some example_student) []
     = Some ([], [example_core_course, example_matched_course])"
  by code_simp

lemma example_composite: "composite example_core_course < composite example_matched_course"
  by (simp add: composite_def example_core_course_def example_matched_course_def)

lemma example_core_score:
  "fst (fst (course_score example_student (student_interests_of example_student) [] None
          (example_subject ''CS5100'' ''Algorithms'' 10))) = 0"
  by code_simp

lemma example_completed_core:
  "find_matching_courses completed_core_student
     [example_subject ''CS5100'' ''Algorithms'' 10] no_outcomes [] ([]::prereq list) None = []"
  by code_simp

lemma example_is_core: "is_core_subject completed_core_student ''CS5100''"
  by code_simp

text \<open>
  Claim C6: a subject code in the student's \<^verbatim>\<open>completed_courses\<close> is in neither list
  of \<^verbatim>\<open>generate_recommendations\<close>, nor in the output of \<^verbatim>\<open>find_matching_courses\<close>, nor
  in a table of burnout scores that \<^verbatim>\<open>calculate_scores\<close> returns.
\<close>

theorem completed_courses_excluded:
  assumes "py_in code (completed_courses sd)"
  shows "code \<notin> mc_subject_code ` set (find_matching_courses sd df oc pq cq bs)
    \<and> (\<forall>recommended competitive.
          generate_recommendations df oc pq cq bs (Some sd) extra = Some (recommended, competitive)
          \<longrightarrow> code \<notin> mc_subject_code ` (set recommended \<union> set competitive))
    \<and> (\<forall>scores. calculate_scores sd df oc pq rq = Inr scores
          \<longrightarrow> code \<notin> sr_subject_code ` set scores)"
proof (intro conjI allI impI)
  show "code \<notin> mc_subject_code ` set (find_matching_courses sd df oc pq cq bs)"
  proof
    assume "code \<in> mc_subject_code ` set (find_matching_courses sd df oc pq cq bs)"
    then obtain x where x: "x \<in> set (find_matching_courses sd df oc pq cq bs)"
      and c: "mc_subject_code x = code" by auto
    from find_matching_courses_not_completed [OF x] c assms show False by simp
  qed
next
  fix recommended competitive
  assume g: "generate_recommendations df oc pq cq bs (Some sd) extra = Some (recommended, competitive)"
  let ?m = "find_matching_courses (add_interests sd extra) df oc pq cq bs"
  from g have sub: "set recommended \<union> set competitive \<subseteq> set ?m"
    by (auto simp: generate_recommendations_def Let_def)
  show "code \<notin> mc_subject_code ` (set recommended \<union> set competitive)"
  proof
    assume "code \<in> mc_subject_code ` (set recommended \<union> set competitive)"
    then obtain x where x: "x \<in> set recommended \<union> set competitive"
      and c: "mc_subject_code x = code" by auto
    from x sub have "x \<in> set ?m" by (rule subsetD [rotated])
    from find_matching_courses_not_completed [OF this] c assms show False
      by (simp add: completed_add_interests)
  qed
next
  fix scores
  assume "calculate_scores sd df oc pq rq = Inr scores"
  from calculate_scores_not_completed [OF this]
  have nc: "\<forall>r \<in> set scores. \<not> py_in (sr_subject_code r) (completed_courses sd)" .
  show "code \<notin> sr_subject_code ` set scores"
  proof
    assume "code \<in> sr_subject_code ` set scores"
    then obtain r where "r \<in> set scores" and "sr_subject_code r = code" by auto
    with nc assms show False by auto
  qed
qed

theorem completed_courses_excluded_witness:
  "py_in ''CS5001'' (completed_courses example_student)
   \<and> ''CS5001'' \<in> subject_code ` set example_catalog
   \<and> find_matching_courses example_student example_catalog no_outcomes [] ([]::prereq list) None
       = [example_core_course, example_matched_course]
   \<and> ''CS5001'' \<notin> mc_subject_code `
         set (find_matching_courses example_student example_catalog no_outcomes [] ([]::prereq list) None)"
proof -
  have h: "py_in ''CS5001'' (completed_courses example_student)"
    by (simp add: example_student_def)
  from completed_courses_excluded [OF h, of example_catalog no_outcomes "[]" "[]::prereq list" None]
  have "''CS5001'' \<notin> mc_subject_code `
         set (find_matching_courses example_student example_catalog no_outcomes [] ([]::prereq list) None)"
    by (rule conjunct1)
  with h example_in_catalog(1) example_matching show ?thesis by simp
qed

text \<open>
  Claim C5: a core subject is in the output of \<^verbatim>\<open>find_matching_courses\<close> whatever its
  match score, its score raised by 0.5, and in the output every core subject comes
  before every subject that is not core. A completed subject is skipped before the core
  test, so the first part holds for the core subjects that are not completed.
\<close>

theorem core_subject_included_and_ranked_first:
  assumes "c \<in> set subjects_df"
    and "is_core_subject sd (subject_code c)"
    and "\<not> py_in (subject_code c) (completed_courses sd)"
  shows "(\<exists>x \<in> set (find_matching_courses sd subjects_df oc pq cq bs).
            mc_subject_code x = subject_code c \<and> is_core x
            \<and> match_score x
                = fst (fst (course_score sd (student_interests_of sd) pq bs c)) + 1 / 2
            \<and> CoreSubjectRequirement \<in> set (reasons x))
    \<and> (\<forall>i j. i < j \<and> j < length (find_matching_courses sd subjects_df oc pq cq bs)
            \<and> is_core (find_matching_courses sd subjects_df oc pq cq bs ! j)
          \<longrightarrow> is_core (find_matching_courses sd subjects_df oc pq cq bs ! i))"
proof
  from match_course_core [where si = "student_interests_of sd" and pq = pq and bs = bs, OF assms(2,3)]
  obtain x where
    x: "match_course sd (student_interests_of sd) pq bs c = Some x"
    and p: "mc_subject_code x = subject_code c" "is_core x"
      "match_score x = fst (fst (course_score sd (student_interests_of sd) pq bs c)) + 1 / 2"
      "CoreSubjectRequirement \<in> set (reasons x)"
    by auto
  from x assms(1) have "x \<in> set (find_matching_courses sd subjects_df oc pq cq bs)"
    by (auto simp: find_matching_courses_set)
  with p show "\<exists>x \<in> set (find_matching_courses sd subjects_df oc pq cq bs).
            mc_subject_code x = subject_code c \<and> is_core x
            \<and> match_score x
                = fst (fst (course_score sd (student_interests_of sd) pq bs c)) + 1 / 2
            \<and> CoreSubjectRequirement \<in> set (reasons x)"
    by (intro bexI [of _ x]) simp_all
next
  show "\<forall>i j. i < j \<and> j < length (find_matching_courses sd subjects_df oc pq cq bs)
            \<and> is_core (find_matching_courses sd subjects_df oc pq cq bs ! j)
          \<longrightarrow> is_core (find_matching_courses sd subjects_df oc pq cq bs ! i)"
  proof (intro allI impI)
    fix i j
    assume "i < j \<and> j < length (find_matching_courses sd subjects_df oc pq cq bs)
            \<and> is_core (find_matching_courses sd subjects_df oc pq cq bs ! j)"
    then show "is_core (find_matching_courses sd subjects_df oc pq cq bs ! i)"
      using find_matching_courses_core_first [of i j sd subjects_df oc pq cq bs] by simp
  qed
qed

theorem core_subject_included_and_ranked_first_witness:
  "example_subject ''CS5100'' ''Algorithms'' 10 \<in> set example_catalog
   \<and> is_core_subject example_student ''CS5100''
   \<and> \<not> py_in ''CS5100'' (completed_courses example_student)
   \<and> fst (fst (course_score example_student (student_interests_of example_student) [] None
          (example_subject ''CS5100'' ''Algorithms'' 10))) = 0
   \<and> find_matching_courses example_student example_catalog no_outcomes [] ([]::prereq list) None
       = [example_core_course, example_matched_course]
   \<and> composite example_core_course < composite example_matched_course
   \<and> (\<exists>x \<in> set (find_matching_courses example_student example_catalog no_outcomes []
                    ([]::prereq list) None).
         mc_subject_code x = ''CS5100'' \<and> is_core x \<and> match_score x = 1 / 2)"
proof -
  let ?c = "example_subject ''CS5100'' ''Algorithms'' 10"
  have code: "subject_code ?c = ''CS5100''" by (simp add: example_subject_def)
  have a1: "?c \<in> set example_catalog" by (simp add: example_catalog_def)
  have core: "is_core_subject example_student ''CS5100''" by code_simp
  have notin: "\<not> py_in ''CS5100'' (completed_courses example_student)"
    by (simp add: example_student_def)
  have a2: "is_core_subject example_student (subject_code ?c)"
    unfolding code by (rule core)
  have a3: "\<not> py_in (subject_code ?c) (completed_courses example_student)"
    unfolding code by (rule notin)
  from core_subject_included_and_ranked_first
         [OF a1 a2 a3, of no_outcomes "[]" "[]::prereq list" None]
  obtain x where
    x: "x \<in> set (find_matching_courses example_student example_catalog no_outcomes []
                   ([]::prereq list) None)"
    and p: "mc_subject_code x = subject_code ?c" "is_core x"
      "match_score x
        = fst (fst (course_score example_student (student_interests_of example_student) []
                      None ?c)) + 1 / 2"
    by auto
  from p have "mc_subject_code x = ''CS5100'' \<and> is_core x \<and> match_score x = 1 / 2"
    by (simp add: code example_core_score)
  with x have "\<exists>x \<in> set (find_matching_courses example_student example_catalog no_outcomes []
                    ([]::prereq list) None).
         mc_subject_code x = ''CS5100'' \<and> is_core x \<and> match_score x = 1 / 2"
    by (rule bexI [rotated])
  with a1 core notin example_core_score example_matching example_composite
  show ?thesis by (intro conjI)
qed

theorem completed_core_subject_not_included:
  "example_subject ''CS5100'' ''Algorithms'' 10 \<in> set [example_subject ''CS5100'' ''Algorithms'' 10]
   \<and> is_core_subject completed_core_student ''CS5100''
   \<and> ''CS5100'' \<notin> mc_subject_code `
         set (find_matching_courses completed_core_student
                [example_subject ''CS5100'' ''Algorithms'' 10] no_outcomes [] ([]::prereq list) None)"
  by (simp add: example_completed_core example_is_core)

text \<open>
  Claim C4: the enrollment likelihood is min(base * min(semester / 4, 1) * (1.5 if core
  else 1), 1) with base = (seats - enrollments) / seats for seats > 0 and 0 otherwise,
  floored to 0.1 when not positive; 100 seats, 95 enrollments, semester 4, not core give
  0.05; and \<^verbatim>\<open>generate_recommendations\<close> puts every matched course whose likelihood is
  below 0.3 in the highly competitive list and not in the recommended list.
\<close>

theorem enrollment_likelihood_and_partition:
  "calculate_enrollment_likelihood sem core n_seats n_enrollments
     = spec_enrollment_likelihood sem core n_seats n_enrollments
   \<and> calculate_enrollment_likelihood 4 False 100 95 = 5 / 100
   \<and> (\<exists>recommended competitive.
        generate_recommendations subjects_df oc pq cq bs (Some sd) extra
          = Some (recommended, competitive)
        \<and> (\<forall>c \<in> set (find_matching_courses (add_interests sd extra) subjects_df oc pq cq bs).
              likelihood c < 3 / 10 \<longrightarrow> c \<in> set competitive \<and> c \<notin> set recommended))"
proof (intro conjI)
  show "calculate_enrollment_likelihood sem core n_seats n_enrollments
     = spec_enrollment_likelihood sem core n_seats n_enrollments"
    by (simp add: calculate_enrollment_likelihood_def spec_enrollment_likelihood_def Let_def)
  show "calculate_enrollment_likelihood 4 False 100 95 = 5 / 100"
    by (simp add: calculate_enrollment_likelihood_def Let_def)
  show "\<exists>recommended competitive.
        generate_recommendations subjects_df oc pq cq bs (Some sd) extra
          = Some (recommended, competitive)
        \<and> (\<forall>c \<in> set (find_matching_courses (add_interests sd extra) subjects_df oc pq cq bs).
              likelihood c < 3 / 10 \<longrightarrow> c \<in> set competitive \<and> c \<notin> set recommended)"
    by (simp add: generate_recommendations_def Let_def)
qed

theorem enrollment_likelihood_and_partition_witness:
  "example_matched_course
     \<in> set (find_matching_courses (add_interests example_student []) example_catalog no_outcomes []
              ([]::prereq list) None)
   \<and> likelihood example_matched_course = 1 / 20
   \<and> (\<exists>recommended competitive.
        generate_recommendations example_catalog no_outcomes [] ([]::prereq list) None
          (Some example_student) [] = Some (recommended, competitive)
        \<and> example_matched_course \<in> set competitive
        \<and> example_matched_course \<notin> set recommended)"
proof -
  have m: "example_matched_course
     \<in> set (find_matching_courses (add_interests example_student []) example_catalog no_outcomes []
              ([]::prereq list) None)"
    by (simp add: add_interests_def example_matching)
  have l: "likelihood example_matched_course = 1 / 20"
    by (simp add: example_matched_course_def)
  from enrollment_likelihood_and_partition
         [of 4 False 100 95 example_catalog no_outcomes "[]" "[]::prereq list" None example_student "[]"]
  obtain recommended competitive where
    g: "generate_recommendations example_catalog no_outcomes [] ([]::prereq list) None
          (Some example_student) [] = Some (recommended, competitive)"
    and part: "\<forall>c \<in> set (find_matching_courses (add_interests example_student [])
                          example_catalog no_outcomes [] ([]::prereq list) None).
              likelihood c < 3 / 10 \<longrightarrow> c \<in> set competitive \<and> c \<notin> set recommended"
    by auto
  from part m l have "example_matched_course \<in> set competitive
        \<and> example_matched_course \<notin> set recommended"
    by simp
  with g m l show ?thesis by blast
qed

end
